theory Spec2Isabelle
  imports Complex_Main "HOL-Library.Multiset"
begin

section \<open>Python values, errors and effects\<close>

text \<open>
  The script \<^verbatim>\<open>bin/LDA.py\<close> is Python 2 (\<^verbatim>\<open>color_cycle.next()\<close>,
  \<^verbatim>\<open>cats.index(group)\<close> on \<^verbatim>\<open>dict.keys()\<close>). An exception of the source is a value
  of \<open>py_error\<close>; \<^verbatim>\<open>sys.exit(msg)\<close> raises \<open>SystemExit msg\<close>. A table cell, an index
  label or a group label is a \<open>cell\<close>: a Python string or a number.
\<close>

datatype cell = Str string | Flt real

datatype py_error =
    IOError string
  | KeyError cell
  | IndexError
  | ValueError
  | TypeError
  | StopIteration
  | SystemExit string

text \<open>
  A pandas data frame: the column names and, per row, the index label with the row's
  cells. The script's frames carry sample IDs as index labels.
\<close>

record frame =
  columns :: "string list"
  frows :: "(cell \<times> cell list) list"

text \<open>A two-dimensional numpy array: \<^verbatim>\<open>shape[1]\<close> and the rows.\<close>

record ndarray =
  shape1 :: nat
  data :: "real list list"

definition wf_ndarray :: "ndarray \<Rightarrow> bool" where
  "wf_ndarray X = list_all (\<lambda>r. length r = shape1 X) (data X)"

text \<open>
  An axis label is either the bare text or the text with the percentage that
  \<^verbatim>\<open>"{:.3f}%".format(exp_var[k]*100)\<close> prints.
\<close>

datatype label = Plain string | Pct string real

text \<open>
  Everything the script does to the outside world, in order: console output, the
  matplotlib calls of \<^verbatim>\<open>plot_LDA\<close> and the export of the assembled matrix. The
  styling arguments (\<^verbatim>\<open>fig_size\<close>, \<^verbatim>\<open>label_pad\<close>, \<^verbatim>\<open>font_size\<close>, \<^verbatim>\<open>pt_size\<close>) only
  pass through to matplotlib and are left out. A call that only produces output is
  recorded as an event.
\<close>

datatype event =
    Print string
  | Figure
  | AddSubplot bool
  | ViewInit real real
  | SetXLabel label
  | SetYLabel label
  | SetZLabel label
  | Scatter string "real list" "real list" "real list option" string
  | Annotate cell "real list"
  | YLim real real
  | Legend
  | GgplotStyle
  | SaveFig string string
  | Show
  | ToCsv string frame

type_synonym 'a io = "event list \<times> (py_error + 'a)"

definition return_io :: "'a \<Rightarrow> 'a io" where
  "return_io a = ([], Inr a)"

definition raise_io :: "py_error \<Rightarrow> 'a io" where
  "raise_io e = ([], Inl e)"

definition emit :: "event \<Rightarrow> unit io" where
  "emit ev = ([ev], Inr ())"

definition lift_io :: "py_error + 'a \<Rightarrow> 'a io" where
  "lift_io r = ([], r)"

definition bind_io :: "'a io \<Rightarrow> ('a \<Rightarrow> 'b io) \<Rightarrow> 'b io" where
  "bind_io m f =
     (case m of
        (es, Inl e) \<Rightarrow> (es, Inl e)
      | (es, Inr a) \<Rightarrow> (case f a of (es', r) \<Rightarrow> (es @ es', r)))"

definition seq_io :: "unit io \<Rightarrow> 'b io \<Rightarrow> 'b io" where
  "seq_io m k = bind_io m (\<lambda>_. k)"

fun seqs :: "unit io list \<Rightarrow> unit io" where
  "seqs [] = return_io ()"
| "seqs (m # ms) = seq_io m (seqs ms)"

fun for_io :: "'a list \<Rightarrow> ('a \<Rightarrow> unit io) \<Rightarrow> unit io" where
  "for_io [] f = return_io ()"
| "for_io (x # xs) f = seq_io (f x) (for_io xs f)"

text \<open>
  The exit status of the process: 0 when \<^verbatim>\<open>main\<close> returns, 1 when \<^verbatim>\<open>sys.exit\<close> is
  given a message (printed to standard error) or an exception is not caught.
\<close>

definition exit_status :: "py_error + 'a \<Rightarrow> nat" where
  "exit_status r = (case r of Inl _ \<Rightarrow> 1 | Inr _ \<Rightarrow> 0)"

definition is_SaveFig :: "event \<Rightarrow> bool" where
  "is_SaveFig ev = (case ev of SaveFig _ _ \<Rightarrow> True | _ \<Rightarrow> False)"

definition is_Annotate :: "event \<Rightarrow> bool" where
  "is_Annotate ev = (case ev of Annotate _ _ \<Rightarrow> True | _ \<Rightarrow> False)"

definition is_YLim :: "event \<Rightarrow> bool" where
  "is_YLim ev = (case ev of YLim _ _ \<Rightarrow> True | _ \<Rightarrow> False)"

section \<open>Indexing\<close>

definition getitem :: "'a list \<Rightarrow> nat \<Rightarrow> py_error + 'a" where
  "getitem xs i = (if i < length xs then Inr (xs ! i) else Inl IndexError)"

text \<open>\<^verbatim>\<open>xs.index(x)\<close>: the first position of \<open>x\<close>, \<^verbatim>\<open>ValueError\<close> when absent.\<close>

fun index_of :: "'a list \<Rightarrow> 'a \<Rightarrow> nat option" where
  "index_of [] x = None"
| "index_of (y # ys) x =
     (if y = x then Some 0 else map_option Suc (index_of ys x))"

text \<open>\<^verbatim>\<open>X[:, j]\<close>\<close>

definition column :: "ndarray \<Rightarrow> nat \<Rightarrow> py_error + real list" where
  "column X j =
     (if j < shape1 X then Inr (map (\<lambda>r. r ! j) (data X)) else Inl IndexError)"

text \<open>
  \<^verbatim>\<open>v[y_lda == target_name]\<close>: the entries of \<open>v\<close> whose label is the string
  \<open>target_name\<close>; a mask of another length is an \<^verbatim>\<open>IndexError\<close>.
\<close>

definition mask_select :: "real list \<Rightarrow> cell list \<Rightarrow> string \<Rightarrow> py_error + real list" where
  "mask_select v y t =
     (if length y = length v
      then Inr (map fst (filter (\<lambda>p. snd p = Str t) (zip v y)))
      else Inl IndexError)"

section \<open>Axis labels\<close>

text \<open>
  \<^verbatim>\<open>exp_var\<close> is either the array of ratios or the string that \<^verbatim>\<open>run_LDA\<close> returns
  in its place. \<^verbatim>\<open>exp_var[k]*100\<close> on a string repeats the character 100 times, and
  formatting a string with \<^verbatim>\<open>{:.3f}\<close> raises \<^verbatim>\<open>ValueError\<close>; the bare \<^verbatim>\<open>except:\<close>
  then sets the bare label.
\<close>

datatype exp_var = EVStr string | EVArr "real list"

datatype pyval = PStr string | PFloat real

fun ev_getitem :: "exp_var \<Rightarrow> nat \<Rightarrow> py_error + pyval" where
  "ev_getitem (EVStr s) k = (if k < length s then Inr (PStr [s ! k]) else Inl IndexError)"
| "ev_getitem (EVArr a) k = (if k < length a then Inr (PFloat (a ! k)) else Inl IndexError)"

fun times100 :: "pyval \<Rightarrow> pyval" where
  "times100 (PStr s) = PStr (concat (replicate 100 s))"
| "times100 (PFloat r) = PFloat (r * 100)"

fun format_3f :: "pyval \<Rightarrow> py_error + real" where
  "format_3f (PStr s) = Inl ValueError"
| "format_3f (PFloat r) = Inr r"

definition axis_label :: "string \<Rightarrow> exp_var \<Rightarrow> nat \<Rightarrow> label" where
  "axis_label name ev k =
     (case ev_getitem ev k of
        Inl _ \<Rightarrow> Plain name
      | Inr v \<Rightarrow> (case format_3f (times100 v) of
                    Inl _ \<Rightarrow> Plain name
                  | Inr r \<Rightarrow> Pct name r))"

section \<open>\<^verbatim>\<open>plot_LDA\<close>\<close>

definition groups_msg :: string where
  "groups_msg = CHR 0x0A # ''Linear Discriminant Analysis requires at least 4 groups of samples to create a 3D figure. Please update group information or use the default 2D view of the results.'' @ [CHR 0x0A]"

definition annot_msg :: string where
  "annot_msg = CHR 0x0A # ''Point annotations are available only for 2D figures.'' @ [CHR 0x0A]"

text \<open>\<^verbatim>\<open>class_colors[target_name]\<close>\<close>

definition dict_get :: "(string \<times> 'v) list \<Rightarrow> string \<Rightarrow> py_error + 'v" where
  "dict_get d k = (case map_of d k of None \<Rightarrow> Inl (KeyError (Str k)) | Some v \<Rightarrow> Inr v)"

text \<open>The body of the 3D loop over \<^verbatim>\<open>zip(range(len(cats)), cats)\<close>.\<close>

definition scatter3d :: "ndarray \<Rightarrow> cell list \<Rightarrow> (string \<times> string) list \<Rightarrow> nat \<times> string \<Rightarrow> unit io" where
  "scatter3d X_lda y_lda class_colors it =
     (case it of (i, target_name) \<Rightarrow>
        bind_io (lift_io (column X_lda 0)) (\<lambda>c0.
        bind_io (lift_io (mask_select c0 y_lda target_name)) (\<lambda>cat_x.
        bind_io (lift_io (column X_lda 1)) (\<lambda>c1.
        bind_io (lift_io (mask_select c1 y_lda target_name)) (\<lambda>cat_y.
        bind_io (lift_io (column X_lda 2)) (\<lambda>c2.
        bind_io (lift_io (mask_select c2 y_lda target_name)) (\<lambda>cat_z.
        bind_io (lift_io (dict_get class_colors target_name)) (\<lambda>c.
        emit (Scatter target_name cat_x cat_y (Some cat_z) c)))))))))"

text \<open>
  The body of the 2D loop. With a single column, \<^verbatim>\<open>np.ones((n, 1)) + i\<close> is the
  constant \<open>1 + i\<close>, once per selected point.
\<close>

definition scatter2d :: "ndarray \<Rightarrow> cell list \<Rightarrow> (string \<times> string) list \<Rightarrow> nat \<times> string \<Rightarrow> unit io" where
  "scatter2d X_lda y_lda class_colors it =
     (case it of (i, target_name) \<Rightarrow>
        bind_io (lift_io (column X_lda 0)) (\<lambda>c0.
        bind_io (lift_io (mask_select c0 y_lda target_name)) (\<lambda>cat_x.
        bind_io (if shape1 X_lda = 1
                 then return_io (replicate (length cat_x) (1 + real i))
                 else bind_io (lift_io (column X_lda 1)) (\<lambda>c1.
                      lift_io (mask_select c1 y_lda target_name))) (\<lambda>cat_y.
        bind_io (lift_io (dict_get class_colors target_name)) (\<lambda>c.
        emit (Scatter target_name cat_x cat_y None c))))))"

text \<open>
  The body of the annotation loop. \<^verbatim>\<open>assert len(point) >= 2\<close> fails on a
  single-column row; the handler replaces the point, and the \<^verbatim>\<open>finally\<close> clause
  annotates in every case, also when the handler itself raises (then with the
  unchanged point, before the exception goes on).
\<close>

definition annotate_point :: "string list \<Rightarrow> cell \<times> real list \<times> cell \<Rightarrow> unit io" where
  "annotate_point cats it =
     (case it of (sample, point, grp) \<Rightarrow>
        if 2 \<le> length point then emit (Annotate sample (take 2 point))
        else (case getitem point 0 of
                Inl e \<Rightarrow> seq_io (emit (Annotate sample (take 2 point))) (raise_io e)
              | Inr p0 \<Rightarrow>
                  (case grp of
                     Flt _ \<Rightarrow> seq_io (emit (Annotate sample (take 2 point))) (raise_io ValueError)
                   | Str g \<Rightarrow>
                       (case index_of cats g of
                          None \<Rightarrow> seq_io (emit (Annotate sample (take 2 point))) (raise_io ValueError)
                        | Some i \<Rightarrow> emit (Annotate sample (take 2 [p0, real i + 1]))))))"

fun zip3 :: "'a list \<Rightarrow> 'b list \<Rightarrow> 'c list \<Rightarrow> ('a \<times> 'b \<times> 'c) list" where
  "zip3 (a # as) (b # bs) (c # cs) = (a, b, c) # zip3 as bs cs"
| "zip3 _ _ _ = []"

definition plot_LDA ::
  "ndarray \<Rightarrow> cell list \<Rightarrow> (string \<times> string) list \<Rightarrow> exp_var \<Rightarrow> bool \<Rightarrow> cell list option
     \<Rightarrow> int \<Rightarrow> (real \<times> real) option \<Rightarrow> string \<Rightarrow> unit io" where
  "plot_LDA X_lda y_lda class_colors exp_var style sids ndim zangles out_fp =
     (let cats = map fst class_colors in
      seqs [
        emit Figure,
        (if ndim = 3 then
           seqs [
             (if 3 \<le> shape1 X_lda then return_io () else raise_io (SystemExit groups_msg)),
             (if sids \<noteq> None then emit (Print annot_msg) else return_io ()),
             emit (AddSubplot True),
             (case zangles of
                None \<Rightarrow> raise_io TypeError
              | Some (azim, elev) \<Rightarrow> emit (ViewInit elev azim)),
             emit (SetZLabel (axis_label ''LD3'' exp_var 2)),
             for_io (zip [0..<length cats] cats) (scatter3d X_lda y_lda class_colors)
           ]
         else
           seqs [
             emit (AddSubplot False),
             for_io (zip [0..<length cats] cats) (scatter2d X_lda y_lda class_colors),
             (case sids of
                None \<Rightarrow> return_io ()
              | Some ss \<Rightarrow> for_io (zip3 ss (data X_lda) y_lda) (annotate_point cats))
           ]),
        (if shape1 X_lda = 1 then emit (YLim 0.5 2.5) else return_io ()),
        emit (SetXLabel (axis_label ''LD1'' exp_var 0)),
        emit (SetYLabel (axis_label ''LD2'' exp_var 1)),
        emit Legend,
        (if ndim = 2 \<and> style then emit GgplotStyle else return_io ()),
        (if out_fp \<noteq> [] then emit (SaveFig out_fp (if ndim = 2 \<and> style then ''0.8'' else ''none''))
         else emit Show)
      ])"

section \<open>\<^verbatim>\<open>run_LDA\<close>\<close>

definition wf_frame :: "frame \<Rightarrow> bool" where
  "wf_frame df = list_all (\<lambda>row. length (snd row) = length (columns df)) (frows df)"

fun map_err :: "('a \<Rightarrow> py_error + 'b) \<Rightarrow> 'a list \<Rightarrow> py_error + 'b list" where
  "map_err f [] = Inr []"
| "map_err f (x # xs) =
     (case f x of
        Inl e \<Rightarrow> Inl e
      | Inr y \<Rightarrow> (case map_err f xs of Inl e \<Rightarrow> Inl e | Inr ys \<Rightarrow> Inr (y # ys)))"

text \<open>\<^verbatim>\<open>df.iloc[:, 1:df.shape[1]].values\<close>\<close>

definition lda_X :: "frame \<Rightarrow> cell list list" where
  "lda_X df = map (\<lambda>row. drop 1 (take (length (columns df)) (snd row))) (frows df)"

text \<open>
  \<^verbatim>\<open>df[name].values\<close>: \<^verbatim>\<open>KeyError\<close> when no column has the name. A name that occurs
  more than once selects a two-dimensional block, which scikit-learn's fit refuses
  as a label vector; \<^verbatim>\<open>main\<close> never builds such a frame, as
  \<^verbatim>\<open>DataFrame.insert\<close> refuses a duplicate.
\<close>

definition df_getitem :: "frame \<Rightarrow> string \<Rightarrow> py_error + cell list" where
  "df_getitem df name =
     (case filter (\<lambda>j. columns df ! j = name) [0..<length (columns df)] of
        [] \<Rightarrow> Inl (KeyError (Str name))
      | [j] \<Rightarrow> map_err (\<lambda>row. getitem (snd row) j) (frows df)
      | _ \<Rightarrow> Inl ValueError)"

text \<open>
  The fitted scikit-learn object: what \<^verbatim>\<open>fit_transform\<close> returned and the
  attribute \<^verbatim>\<open>explained_variance_ratio_\<close>, \<open>None\<close> when the object has no such
  attribute.
\<close>

record fitted =
  transformed :: ndarray
  explained_variance_ratio :: "real list option"

definition attr_text :: string where
  "attr_text = CHR 0x27 # ''LinearDiscriminantAnalysis'' @ CHR 0x27 # '' object has no attribute '' @ CHR 0x27 # ''explained_variance_ratio_'' @ [CHR 0x27]"

definition na_msg :: string where
  "na_msg = CHR 0x0A # attr_text @ '': explained variance cannot be computed.'' @ CHR 0x0A # ''Please check this GitHub PR: https://github.com/scikit-learn/scikit-learn/pull/6027''"

text \<open>Lines 133 to 142: fit, then read the ratios or fall back to the string.\<close>

definition fit_and_report ::
  "(cell list list \<Rightarrow> cell list \<Rightarrow> py_error + fitted) \<Rightarrow> cell list list \<Rightarrow> cell list
     \<Rightarrow> (ndarray \<times> cell list \<times> exp_var) io" where
  "fit_and_report fit_transform X y =
     bind_io (lift_io (fit_transform X y)) (\<lambda>sklearn_lda.
       (case explained_variance_ratio sklearn_lda of
          None \<Rightarrow> seq_io (emit (Print na_msg))
                    (return_io (transformed sklearn_lda, y, EVStr ''NA''))
        | Some r \<Rightarrow> return_io (transformed sklearn_lda, y, EVArr r)))"

definition run_LDA ::
  "(cell list list \<Rightarrow> cell list \<Rightarrow> py_error + fitted) \<Rightarrow> frame
     \<Rightarrow> (ndarray \<times> cell list \<times> exp_var) io" where
  "run_LDA fit_transform df =
     (let X = lda_X df in
      bind_io (lift_io (df_getitem df ''Condition'')) (\<lambda>y.
      fit_and_report fit_transform X y))"

section \<open>\<^verbatim>\<open>main\<close>\<close>

record args =
  map_fp :: string
  group_by :: string
  colors :: "string option"
  otu_table :: "string option"
  dist_matrix_file :: "string option"
  save_lda_input :: "string option"
  out_fp :: string
  dimensions :: int
  z_angles :: "real \<times> real"
  annotate_points :: bool
  ggplot2_style :: bool

text \<open>
  The libraries the script calls and the parts of the Python runtime the result
  depends on: the readers (which may raise), phylotoast's transforms, scikit-learn's
  fit, \<^verbatim>\<open>str\<close> on a number, the iteration order of a set and of a dict, and the
  palette \<^verbatim>\<open>Set3_12.hex_colors\<close>.
\<close>

record ('b, 'r) env =
  parse_map_file :: "string \<Rightarrow> py_error + (string list \<times> (string \<times> string list) list)"
  color_mapping :: "(string \<times> string list) list \<Rightarrow> string list \<Rightarrow> string \<Rightarrow> string
                      \<Rightarrow> py_error + (string \<times> string) list"
  read_csv :: "string \<Rightarrow> py_error + frame"
  load_table :: "string option \<Rightarrow> py_error + 'b"
  relative_abundance :: "'b \<Rightarrow> py_error + 'r"
  arcsine_sqrt_transform :: "'r \<Rightarrow> py_error + 'r"
  DataFrame_T :: "'r \<Rightarrow> py_error + frame"
  fit_transform :: "cell list list \<Rightarrow> cell list \<Rightarrow> py_error + fitted"
  float_str :: "real \<Rightarrow> string"
  set_iter :: "string list \<Rightarrow> string list"
  dict_iter :: "(string \<times> string) list \<Rightarrow> (string \<times> string) list"
  hex_colors :: "string list"

definition truthy :: "string option \<Rightarrow> bool" where
  "truthy a = (case a of None \<Rightarrow> False | Some s \<Rightarrow> s \<noteq> [])"

definition py_str :: "('b, 'r) env \<Rightarrow> cell \<Rightarrow> string" where
  "py_str env c = (case c of Str s \<Rightarrow> s | Flt r \<Rightarrow> float_str env r)"

definition map_err_msg :: "string \<Rightarrow> string" where
  "map_err_msg ioe = CHR 0x0A # ''Error in metadata mapping filepath (-m): '' @ ioe @ [CHR 0x0A]"

definition dm_err_msg :: "string \<Rightarrow> string" where
  "dm_err_msg ioe = CHR 0x0A # ''Error with unifrac distance matrix file (-d): '' @ ioe @ [CHR 0x0A]"

definition biom_err_msg :: "string \<Rightarrow> string" where
  "biom_err_msg ioe = CHR 0x0A # ''Error with biom format file (-d): '' @ ioe @ [CHR 0x0A]"

text \<open>Lines 199 to 205.\<close>

definition read_mapping ::
  "('b, 'r) env \<Rightarrow> args \<Rightarrow> py_error + (string list \<times> (string \<times> string list) list \<times> nat)" where
  "read_mapping env a =
     (case parse_map_file env (map_fp a) of
        Inl (IOError ioe) \<Rightarrow> Inl (SystemExit (map_err_msg ioe))
      | Inl e \<Rightarrow> Inl e
      | Inr (header, imap) \<Rightarrow>
          (case index_of header (group_by a) of
             None \<Rightarrow> Inl ValueError
           | Some category_idx \<Rightarrow> Inr (header, imap, category_idx)))"

text \<open>\<^verbatim>\<open>v[category_idx] for k, v in imap.items()\<close>\<close>

definition group_values :: "(string \<times> string list) list \<Rightarrow> nat \<Rightarrow> py_error + string list" where
  "group_values imap category_idx = map_err (\<lambda>kv. getitem (snd kv) category_idx) imap"

text \<open>
  \<^verbatim>\<open>{c: color_cycle.next() for c in categories}\<close>: the \<open>i\<close>-th category met takes the
  \<open>i\<close>-th value of the cycle; \<^verbatim>\<open>cycle\<close> over an empty palette has no next value.
\<close>

definition cycle_colors :: "string list \<Rightarrow> string list \<Rightarrow> py_error + (string \<times> string) list" where
  "cycle_colors palette categories =
     (if palette = [] \<and> categories \<noteq> [] then Inl StopIteration
      else Inr (map (\<lambda>i. (categories ! i, palette ! (i mod length palette)))
                  [0..<length categories]))"

text \<open>Lines 207 to 215.\<close>

definition obtain_group_colors ::
  "('b, 'r) env \<Rightarrow> args \<Rightarrow> string list \<Rightarrow> (string \<times> string list) list \<Rightarrow> nat
     \<Rightarrow> py_error + (string \<times> string) list" where
  "obtain_group_colors env a header imap category_idx =
     (case colors a of
        None \<Rightarrow>
          (case group_values imap category_idx of
             Inl e \<Rightarrow> Inl e
           | Inr vs \<Rightarrow>
               (let categories = set_iter env (remdups vs) in
                case cycle_colors (hex_colors env) categories of
                  Inl e \<Rightarrow> Inl e
                | Inr class_colors \<Rightarrow> Inr (dict_iter env class_colors)))
      | Some c \<Rightarrow> color_mapping env imap header (group_by a) c)"

text \<open>
  \<^verbatim>\<open>df.insert(0, name, values)\<close>: \<^verbatim>\<open>ValueError\<close> when the column exists already or
  the values do not match the rows.
\<close>

definition insert0 :: "string \<Rightarrow> cell list \<Rightarrow> frame \<Rightarrow> py_error + frame" where
  "insert0 name vs df =
     (if name \<in> set (columns df) \<or> length vs \<noteq> length (frows df) then Inl ValueError
      else Inr \<lparr>columns = name # columns df,
                frows = map (\<lambda>p. (fst (snd p), fst p # snd (snd p))) (zip vs (frows df))\<rparr>)"

text \<open>\<^verbatim>\<open>imap[k][category_idx]\<close>\<close>

definition group_of :: "(string \<times> string list) list \<Rightarrow> nat \<Rightarrow> cell \<Rightarrow> py_error + cell" where
  "group_of imap category_idx k =
     (case k of
        Flt r \<Rightarrow> Inl (KeyError k)
      | Str s \<Rightarrow>
          (case map_of imap s of
             None \<Rightarrow> Inl (KeyError k)
           | Some v \<Rightarrow> (case getitem v category_idx of Inl e \<Rightarrow> Inl e | Inr g \<Rightarrow> Inr (Str g))))"

text \<open>
  Lines 218 to 229: the distance-matrix path up to the call of \<^verbatim>\<open>run_LDA\<close>. The
  result is the frame handed to \<^verbatim>\<open>run_LDA\<close> with \<^verbatim>\<open>sampleids\<close>.
\<close>

definition dist_matrix_input ::
  "('b, 'r) env \<Rightarrow> args \<Rightarrow> (string \<times> string list) list \<Rightarrow> nat
     \<Rightarrow> (frame \<times> cell list option) io" where
  "dist_matrix_input env a imap category_idx =
     (case read_csv env (the (dist_matrix_file a)) of
        Inl (IOError ioe) \<Rightarrow> raise_io (SystemExit (dm_err_msg ioe))
      | Inl e \<Rightarrow> raise_io e
      | Inr dm_data \<Rightarrow>
          bind_io (lift_io (map_err (\<lambda>sid. group_of imap category_idx (Str (py_str env sid)))
                              (map fst (frows dm_data)))) (\<lambda>condition.
          bind_io (lift_io (insert0 ''Condition'' condition dm_data)) (\<lambda>dm_data.
          (let sampleids = (if annotate_points a
                            then Some (map (\<lambda>sid. Str (py_str env sid)) (map fst (frows dm_data)))
                            else None)
           in seq_io (if truthy (save_lda_input a)
                      then emit (ToCsv (the (save_lda_input a)) dm_data)
                      else return_io ())
                (return_io (dm_data, sampleids))))))"

text \<open>Lines 233 to 250: the feature-table path up to the call of \<^verbatim>\<open>run_LDA\<close>.\<close>

definition otu_table_input ::
  "('b, 'r) env \<Rightarrow> args \<Rightarrow> (string \<times> string list) list \<Rightarrow> nat
     \<Rightarrow> (frame \<times> cell list option) io" where
  "otu_table_input env a imap category_idx =
     (case load_table env (otu_table a) of
        Inl (IOError ioe) \<Rightarrow> raise_io (SystemExit (biom_err_msg ioe))
      | Inl e \<Rightarrow> raise_io e
      | Inr biomf \<Rightarrow>
          bind_io (lift_io (relative_abundance env biomf)) (\<lambda>rel_abd.
          bind_io (lift_io (arcsine_sqrt_transform env rel_abd)) (\<lambda>rel_abd.
          bind_io (lift_io (DataFrame_T env rel_abd)) (\<lambda>df_rel_abd.
          bind_io (lift_io (map_err (group_of imap category_idx)
                              (map fst (frows df_rel_abd)))) (\<lambda>condition.
          bind_io (lift_io (insert0 ''Condition'' condition df_rel_abd)) (\<lambda>df_rel_abd.
          (let sampleids = (if annotate_points a
                            then Some (map fst (frows df_rel_abd))
                            else None)
           in seq_io (if truthy (save_lda_input a)
                      then emit (ToCsv (the (save_lda_input a)) df_rel_abd)
                      else return_io ())
                (return_io (df_rel_abd, sampleids)))))))))"

definition lda_input ::
  "('b, 'r) env \<Rightarrow> args \<Rightarrow> (string \<times> string list) list \<Rightarrow> nat
     \<Rightarrow> (frame \<times> cell list option) io" where
  "lda_input env a imap category_idx =
     (if truthy (dist_matrix_file a) then dist_matrix_input env a imap category_idx
      else otu_table_input env a imap category_idx)"

text \<open>
  \<^verbatim>\<open>main\<close> up to the call of \<^verbatim>\<open>plot_LDA\<close>: the result is what is passed to plotting.
\<close>

definition plot_inputs ::
  "('b, 'r) env \<Rightarrow> args
     \<Rightarrow> (ndarray \<times> cell list \<times> exp_var \<times> (string \<times> string) list \<times> cell list option) io" where
  "plot_inputs env a =
     bind_io (lift_io (read_mapping env a)) (\<lambda>(header, imap, category_idx).
     bind_io (lift_io (obtain_group_colors env a header imap category_idx)) (\<lambda>class_colors.
     bind_io (lda_input env a imap category_idx) (\<lambda>(df, sampleids).
     bind_io (run_LDA (fit_transform env) df) (\<lambda>(X_lda, y_lda, exp_var).
     return_io (X_lda, y_lda, exp_var, class_colors, sampleids)))))"

definition main :: "('b, 'r) env \<Rightarrow> args \<Rightarrow> unit io" where
  "main env a =
     bind_io (plot_inputs env a) (\<lambda>(X_lda, y_lda, exp_var, class_colors, sampleids).
       if dimensions a = 3
       then plot_LDA X_lda y_lda class_colors exp_var (ggplot2_style a) sampleids 3
              (Some (z_angles a)) (out_fp a)
       else plot_LDA X_lda y_lda class_colors exp_var (ggplot2_style a) sampleids 2
              None (out_fp a))"

section \<open>What a successful call of \<^verbatim>\<open>plot_LDA\<close> draws\<close>

text \<open>
  The events of a call that raises nowhere, written without the error checks:
  \<open>select X y j t\<close> is \<^verbatim>\<open>X[:, j][y == t]\<close> on a mask of the right length.
\<close>

definition select :: "ndarray \<Rightarrow> cell list \<Rightarrow> nat \<Rightarrow> string \<Rightarrow> real list" where
  "select X y j t = map fst (filter (\<lambda>p. snd p = Str t) (zip (map (\<lambda>r. r ! j) (data X)) y))"

definition scatter2d_event :: "ndarray \<Rightarrow> cell list \<Rightarrow> (string \<times> string) list \<Rightarrow> nat \<times> string \<Rightarrow> event" where
  "scatter2d_event X y cc it =
     Scatter (snd it) (select X y 0 (snd it))
       (if shape1 X = 1 then replicate (length (select X y 0 (snd it))) (1 + real (fst it))
        else select X y 1 (snd it))
       None (the (map_of cc (snd it)))"

definition scatter3d_event :: "ndarray \<Rightarrow> cell list \<Rightarrow> (string \<times> string) list \<Rightarrow> nat \<times> string \<Rightarrow> event" where
  "scatter3d_event X y cc it =
     Scatter (snd it) (select X y 0 (snd it)) (select X y 1 (snd it))
       (Some (select X y 2 (snd it))) (the (map_of cc (snd it)))"

definition key_of :: "cell \<Rightarrow> string" where
  "key_of c = (case c of Str s \<Rightarrow> s | Flt _ \<Rightarrow> [])"

definition annotation :: "string list \<Rightarrow> cell \<times> real list \<times> cell \<Rightarrow> event" where
  "annotation cats it =
     (case it of (sample, point, grp) \<Rightarrow>
        Annotate sample
          (if 2 \<le> length point then take 2 point
           else [point ! 0, real (the (index_of cats (key_of grp))) + 1]))"

definition annotations :: "string list \<Rightarrow> cell list option \<Rightarrow> ndarray \<Rightarrow> cell list \<Rightarrow> event list" where
  "annotations cats sids X y =
     (case sids of None \<Rightarrow> [] | Some ss \<Rightarrow> map (annotation cats) (zip3 ss (data X) y))"

definition closing_events :: "exp_var \<Rightarrow> int \<Rightarrow> bool \<Rightarrow> string \<Rightarrow> event list" where
  "closing_events ev ndim style out =
     [SetXLabel (axis_label ''LD1'' ev 0), SetYLabel (axis_label ''LD2'' ev 1), Legend]
     @ (if ndim = 2 \<and> style then [GgplotStyle] else [])
     @ [if out \<noteq> [] then SaveFig out (if ndim = 2 \<and> style then ''0.8'' else ''none'') else Show]"

definition labels_are_keys :: "cell list \<Rightarrow> (string \<times> string) list \<Rightarrow> bool" where
  "labels_are_keys y cc = list_all (\<lambda>g. g \<in> Str ` fst ` set cc) y"

section \<open>Frames and the two input paths\<close>

text \<open>
  The frame that a successful \<^verbatim>\<open>df.insert(0, name, values)\<close> leaves.
\<close>

definition prepend_column :: "string \<Rightarrow> cell list \<Rightarrow> frame \<Rightarrow> frame" where
  "prepend_column name vs df =
     \<lparr>columns = name # columns df,
      frows = map (\<lambda>p. (fst (snd p), fst p # snd (snd p))) (zip vs (frows df))\<rparr>"

text \<open>
  The two halves of a frame in the words of the specification: the feature block is
  every column except the one called \<open>name\<close>, the label vector is the column called
  \<open>name\<close>.
\<close>

definition features_except :: "string \<Rightarrow> frame \<Rightarrow> cell list list" where
  "features_except name df =
     map (\<lambda>row. map snd (filter (\<lambda>p. fst p \<noteq> name) (zip (columns df) (snd row)))) (frows df)"

definition column_named :: "string \<Rightarrow> frame \<Rightarrow> cell list" where
  "column_named name df = map (\<lambda>row. the (map_of (zip (columns df) (snd row)) name)) (frows df)"

text \<open>
  The two input paths of \<^verbatim>\<open>main\<close> differ in how the matrix is loaded and in the key
  under which a sample is looked up (\<^verbatim>\<open>str(sid)\<close> or \<^verbatim>\<open>sid\<close>); from there on they
  run the same statements. \<open>input_matrix\<close> is the matrix as loaded, \<open>sample_key\<close>
  the key of a sample, \<open>assemble\<close> the statements the paths share.
\<close>

definition input_matrix :: "('b, 'r) env \<Rightarrow> args \<Rightarrow> py_error + frame" where
  "input_matrix env a =
     (if truthy (dist_matrix_file a) then
        (case read_csv env (the (dist_matrix_file a)) of
           Inl (IOError ioe) \<Rightarrow> Inl (SystemExit (dm_err_msg ioe))
         | Inl e \<Rightarrow> Inl e
         | Inr dm_data \<Rightarrow> Inr dm_data)
      else
        (case load_table env (otu_table a) of
           Inl (IOError ioe) \<Rightarrow> Inl (SystemExit (biom_err_msg ioe))
         | Inl e \<Rightarrow> Inl e
         | Inr biomf \<Rightarrow>
             (case relative_abundance env biomf of
                Inl e \<Rightarrow> Inl e
              | Inr rel_abd \<Rightarrow>
                  (case arcsine_sqrt_transform env rel_abd of
                     Inl e \<Rightarrow> Inl e
                   | Inr rel_abd \<Rightarrow> DataFrame_T env rel_abd))))"

definition sample_key :: "('b, 'r) env \<Rightarrow> args \<Rightarrow> cell \<Rightarrow> cell" where
  "sample_key env a sid = (if truthy (dist_matrix_file a) then Str (py_str env sid) else sid)"

definition assemble ::
  "(cell \<Rightarrow> cell) \<Rightarrow> args \<Rightarrow> (string \<times> string list) list \<Rightarrow> nat \<Rightarrow> frame
     \<Rightarrow> (frame \<times> cell list option) io" where
  "assemble key a imap category_idx m =
     bind_io (lift_io (map_err (\<lambda>sid. group_of imap category_idx (key sid))
                         (map fst (frows m)))) (\<lambda>condition.
     bind_io (lift_io (insert0 ''Condition'' condition m)) (\<lambda>df.
     (let sampleids = (if annotate_points a then Some (map key (map fst (frows df))) else None)
      in seq_io (if truthy (save_lda_input a)
                 then emit (ToCsv (the (save_lda_input a)) df)
                 else return_io ())
           (return_io (df, sampleids)))))"

text \<open>The mapping-file entry of a key: a key that is not a string has none.\<close>

definition metadata_entry :: "(string \<times> string list) list \<Rightarrow> cell \<Rightarrow> string list option" where
  "metadata_entry imap k = (case k of Str s \<Rightarrow> map_of imap s | Flt _ \<Rightarrow> None)"

text \<open>
  Iterating a Python 2 set or dict visits every element once, in an order the
  language does not fix.
\<close>

definition iteration_orders :: "('b, 'r) env \<Rightarrow> bool" where
  "iteration_orders env =
     ((\<forall>xs. mset (set_iter env xs) = mset xs) \<and> (\<forall>kvs. mset (dict_iter env kvs) = mset kvs))"

section \<open>Sample inputs\<close>

text \<open>
  A run on four samples in three groups, with a 4 by 4 distance matrix and with a
  feature table of two features; \<open>Set3_12\<close> is the palette of 12 colours as
  palettable lists it. The general theorems are instantiated on these inputs.
\<close>

definition ex_colors :: "(string \<times> string) list" where
  "ex_colors = [(''A'', ''#8DD3C7''), (''B'', ''#FFFFB3''), (''C'', ''#BEBADA'')]"

definition ex_labels :: "cell list" where
  "ex_labels = [Str ''A'', Str ''B'', Str ''C'', Str ''A'']"

definition ex_sids :: "cell list" where
  "ex_sids = [Str ''s1'', Str ''s2'', Str ''s3'', Str ''s4'']"

definition ex_X1 :: ndarray where
  "ex_X1 = \<lparr>shape1 = 1, data = [[2], [-1], [4], [3]]\<rparr>"

definition ex_X2 :: ndarray where
  "ex_X2 = \<lparr>shape1 = 2, data = [[2, 1], [-1, 5], [4, 0], [3, 2]]\<rparr>"

definition ex_X3 :: ndarray where
  "ex_X3 = \<lparr>shape1 = 3, data = [[2, 1, 0], [-1, 5, 1], [4, 0, 2], [3, 2, 7]]\<rparr>"

definition ex_frame :: frame where
  "ex_frame = \<lparr>columns = [''Condition'', ''s1'', ''s2'', ''s3'', ''s4''],
               frows = [(Str ''s1'', [Str ''A'', Flt 0, Flt 3, Flt 5, Flt 1]),
                        (Str ''s2'', [Str ''B'', Flt 3, Flt 0, Flt 4, Flt 3]),
                        (Str ''s3'', [Str ''C'', Flt 5, Flt 4, Flt 0, Flt 5]),
                        (Str ''s4'', [Str ''A'', Flt 1, Flt 3, Flt 5, Flt 0])]\<rparr>"

definition ex_fit_na :: "cell list list \<Rightarrow> cell list \<Rightarrow> py_error + fitted" where
  "ex_fit_na X y = Inr \<lparr>transformed = ex_X1, explained_variance_ratio = None\<rparr>"

definition ex_fit :: "cell list list \<Rightarrow> cell list \<Rightarrow> py_error + fitted" where
  "ex_fit X y = Inr \<lparr>transformed = ex_X2, explained_variance_ratio = Some [0.75, 0.25]\<rparr>"

definition ex_header :: "string list" where
  "ex_header = [''#SampleID'', ''Group'']"

definition ex_imap :: "(string \<times> string list) list" where
  "ex_imap = [(''s1'', [''s1'', ''A'']), (''s2'', [''s2'', ''B'']),
              (''s3'', [''s3'', ''C'']), (''s4'', [''s4'', ''A''])]"

definition ex_dm :: frame where
  "ex_dm = \<lparr>columns = [''s1'', ''s2'', ''s3'', ''s4''],
            frows = [(Str ''s1'', [Flt 0, Flt 3, Flt 5, Flt 1]),
                     (Str ''s2'', [Flt 3, Flt 0, Flt 4, Flt 3]),
                     (Str ''s3'', [Flt 5, Flt 4, Flt 0, Flt 5]),
                     (Str ''s4'', [Flt 1, Flt 3, Flt 5, Flt 0])]\<rparr>"

definition ex_otu :: frame where
  "ex_otu = \<lparr>columns = [''otu1'', ''otu2''],
             frows = [(Str ''s1'', [Flt 0.5, Flt 0.25]), (Str ''s2'', [Flt 0.25, Flt 0.5]),
                      (Str ''s3'', [Flt 0.75, Flt 0]), (Str ''s4'', [Flt 0.5, Flt 0.5])]\<rparr>"

definition ex_otu_frame :: frame where
  "ex_otu_frame = \<lparr>columns = [''Condition'', ''otu1'', ''otu2''],
             frows = [(Str ''s1'', [Str ''A'', Flt 0.5, Flt 0.25]),
                      (Str ''s2'', [Str ''B'', Flt 0.25, Flt 0.5]),
                      (Str ''s3'', [Str ''C'', Flt 0.75, Flt 0]),
                      (Str ''s4'', [Str ''A'', Flt 0.5, Flt 0.5])]\<rparr>"

definition ex_imap_short :: "(string \<times> string list) list" where
  "ex_imap_short = [(''s1'', [''s1'', ''A'']), (''s2'', [''s2'', ''B'']), (''s4'', [''s4'', ''A''])]"

definition Set3_12 :: "string list" where
  "Set3_12 = [''#8DD3C7'', ''#FFFFB3'', ''#BEBADA'', ''#FB8072'', ''#80B1D3'', ''#FDB462'',
              ''#B3DE69'', ''#FCCDE5'', ''#D9D9D9'', ''#BC80BD'', ''#CCEBC5'', ''#FFED6F'']"

definition ex_env :: "(unit, unit) env" where
  "ex_env = \<lparr>parse_map_file = (\<lambda>fp. Inr (ex_header, ex_imap)),
             color_mapping = (\<lambda>imap header g c. Inr ex_colors),
             read_csv = (\<lambda>fp. Inr ex_dm),
             load_table = (\<lambda>fp. Inr ()),
             relative_abundance = (\<lambda>b. Inr ()),
             arcsine_sqrt_transform = (\<lambda>r. Inr ()),
             DataFrame_T = (\<lambda>r. Inr ex_otu),
             fit_transform = ex_fit,
             float_str = (\<lambda>r. []),
             set_iter = (\<lambda>xs. xs),
             dict_iter = (\<lambda>kvs. kvs),
             hex_colors = Set3_12\<rparr>"

definition ex_args :: args where
  "ex_args = \<lparr>map_fp = ''map.txt'', group_by = ''Group'', colors = None, otu_table = None,
              dist_matrix_file = Some ''dm.txt'', save_lda_input = None, out_fp = ''lda.png'',
              dimensions = 2, z_angles = (45, 30), annotate_points = False,
              ggplot2_style = False\<rparr>"

definition ex_auto_colors :: "(string \<times> string) list" where
  "ex_auto_colors = [(''B'', ''#8DD3C7''), (''C'', ''#FFFFB3''), (''A'', ''#BEBADA'')]"

section \<open>The effect combinators\<close>

lemma bind_io_Inl [simp]: "bind_io (es, Inl e) f = (es, Inl e)"
  by (simp add: bind_io_def)

lemma bind_io_Inr [simp]: "bind_io (es, Inr a) f = (es @ fst (f a), snd (f a))"
  by (simp add: bind_io_def split: prod.splits)

lemma bind_io_lift_Inr [simp]: "bind_io (lift_io (Inr a)) f = f a"
  by (simp add: lift_io_def)

lemma bind_io_lift_Inl [simp]: "bind_io (lift_io (Inl e)) f = ([], Inl e)"
  by (simp add: lift_io_def)

lemma bind_io_return [simp]: "bind_io (return_io a) f = f a"
  by (simp add: return_io_def)

lemma seq_io_pair_Inr [simp]: "seq_io (es, Inr u) k = (es @ fst k, snd k)"
  by (simp add: seq_io_def)

lemma seq_io_pair_Inl [simp]: "seq_io (es, Inl e) k = (es, Inl e)"
  by (simp add: seq_io_def)

lemma seq_io_emit [simp]: "seq_io (emit ev) k = (ev # fst k, snd k)"
  by (simp add: emit_def)

lemma seq_io_return [simp]: "seq_io (return_io u) k = k"
  by (simp add: seq_io_def)

lemma seq_io_raise [simp]: "seq_io (raise_io e) k = ([], Inl e)"
  by (simp add: raise_io_def)

lemma for_io_emits:
  "(\<And>x. x \<in> set xs \<Longrightarrow> f x = ([g x], Inr ())) \<Longrightarrow> for_io xs f = (map g xs, Inr ())"
  by (induction xs) (simp_all add: return_io_def)

lemma column_select:
  assumes "j < shape1 X" and "length y = length (data X)"
  shows "bind_io (lift_io (column X j)) (\<lambda>c. bind_io (lift_io (mask_select c y t)) f)
           = f (select X y j t)"
  using assms by (simp add: column_def mask_select_def select_def)

lemma column_select':
  assumes "j < shape1 X" and "length y = length (data X)"
  shows "bind_io (lift_io (column X j)) (\<lambda>c. lift_io (mask_select c y t))
           = return_io (select X y j t)"
  using assms by (simp add: column_def mask_select_def select_def return_io_def lift_io_def)

lemma dict_get_key:
  assumes "t \<in> fst ` set cc"
  shows "dict_get cc t = Inr (the (map_of cc t))"
proof -
  from assms obtain v where "map_of cc t = Some v"
    by (metis domD dom_map_of_conv_image_fst)
  then show ?thesis by (simp add: dict_get_def)
qed

lemma scatter2d_ok:
  assumes "1 \<le> shape1 X" and "length y = length (data X)" and "snd it \<in> fst ` set cc"
  shows "scatter2d X y cc it = ([scatter2d_event X y cc it], Inr ())"
proof (cases "shape1 X = 1")
  case True
  with assms show ?thesis
    by (cases it) (simp add: scatter2d_def column_select dict_get_key scatter2d_event_def emit_def)
next
  case False
  with assms have "1 < shape1 X" "0 < shape1 X" by simp_all
  with assms False show ?thesis
    by (cases it) (simp add: scatter2d_def column_select column_select' dict_get_key scatter2d_event_def emit_def)
qed

lemma scatter3d_ok:
  assumes "3 \<le> shape1 X" and "length y = length (data X)" and "snd it \<in> fst ` set cc"
  shows "scatter3d X y cc it = ([scatter3d_event X y cc it], Inr ())"
proof -
  from assms have "0 < shape1 X" "1 < shape1 X" "2 < shape1 X" by simp_all
  with assms show ?thesis
    by (cases it) (simp add: scatter3d_def column_select dict_get_key scatter3d_event_def emit_def)
qed

lemma index_of_Some:
  "x \<in> set xs \<Longrightarrow> \<exists>i. index_of xs x = Some i \<and> i < length xs \<and> xs ! i = x"
  by (induction xs) auto

lemma annotate_point_ok:
  assumes "point \<noteq> []" and "length point < 2 \<longrightarrow> grp \<in> Str ` set cats"
  shows "annotate_point cats (sample, point, grp) = ([annotation cats (sample, point, grp)], Inr ())"
proof (cases "2 \<le> length point")
  case True
  then show ?thesis by (simp add: annotate_point_def annotation_def emit_def)
next
  case False
  with assms obtain g where g: "grp = Str g" "g \<in> set cats" by auto
  then obtain i where "index_of cats g = Some i" using index_of_Some by fastforce
  with False g assms(1) show ?thesis
    by (simp add: annotate_point_def annotation_def emit_def getitem_def key_of_def)
qed

lemma set_zip3:
  "(a, b, c) \<in> set (zip3 as bs cs) \<Longrightarrow> a \<in> set as \<and> b \<in> set bs \<and> c \<in> set cs"
  by (induction as bs cs rule: zip3.induct) auto

lemma zip_upt_keys: "it \<in> set (zip [0..<length cc] (map fst cc)) \<Longrightarrow> snd it \<in> fst ` set cc"
  by (cases it) (auto dest!: set_zip_rightD)

lemma plot_LDA_2d:
  assumes "ndim \<noteq> 3" and "1 \<le> shape1 X" and "wf_ndarray X" and "length y = length (data X)"
    and "shape1 X = 1 \<and> sids \<noteq> None \<longrightarrow> labels_are_keys y cc"
  shows "plot_LDA X y cc ev style sids ndim zangles out =
           ([Figure, AddSubplot False]
            @ map (scatter2d_event X y cc) (zip [0..<length cc] (map fst cc))
            @ annotations (map fst cc) sids X y
            @ (if shape1 X = 1 then [YLim 0.5 2.5] else [])
            @ closing_events ev ndim style out, Inr ())"
proof -
  have sc: "for_io (zip [0..<length cc] (map fst cc)) (scatter2d X y cc)
              = (map (scatter2d_event X y cc) (zip [0..<length cc] (map fst cc)), Inr ())"
    by (rule for_io_emits) (rule scatter2d_ok [OF assms(2) assms(4) zip_upt_keys])
  have an: "(case sids of None \<Rightarrow> return_io ()
             | Some ss \<Rightarrow> for_io (zip3 ss (data X) y) (annotate_point (map fst cc)))
              = (annotations (map fst cc) sids X y, Inr ())"
  proof (cases sids)
    case None
    then show ?thesis by (simp add: annotations_def return_io_def)
  next
    case (Some ss)
    have "for_io (zip3 ss (data X) y) (annotate_point (map fst cc))
            = (map (annotation (map fst cc)) (zip3 ss (data X) y), Inr ())"
    proof (rule for_io_emits)
      fix it assume it: "it \<in> set (zip3 ss (data X) y)"
      obtain s p g where [simp]: "it = (s, p, g)" by (cases it)
      from it have p: "p \<in> set (data X)" and g: "g \<in> set y"
        using set_zip3 by fastforce+
      from p assms(2,3) have "length p = shape1 X" "p \<noteq> []"
        by (auto simp: wf_ndarray_def list_all_iff)
      moreover have "length p < 2 \<longrightarrow> g \<in> Str ` set (map fst cc)"
        using assms(5) Some g \<open>length p = shape1 X\<close> assms(2)
        by (auto simp: labels_are_keys_def list_all_iff)
      ultimately show "annotate_point (map fst cc) it = ([annotation (map fst cc) it], Inr ())"
        by (simp add: annotate_point_ok)
    qed
    with Some show ?thesis by (simp add: annotations_def)
  qed
  show ?thesis
    using assms(1) by (simp add: plot_LDA_def Let_def sc an closing_events_def emit_def return_io_def)
qed

lemma plot_LDA_3d:
  assumes "3 \<le> shape1 X" and "length y = length (data X)"
  shows "plot_LDA X y cc ev style sids 3 (Some (azim, elev)) out =
           ([Figure] @ (if sids \<noteq> None then [Print annot_msg] else [])
            @ [AddSubplot True, ViewInit elev azim, SetZLabel (axis_label ''LD3'' ev 2)]
            @ map (scatter3d_event X y cc) (zip [0..<length cc] (map fst cc))
            @ closing_events ev 3 style out, Inr ())"
proof -
  have sc: "for_io (zip [0..<length cc] (map fst cc)) (scatter3d X y cc)
              = (map (scatter3d_event X y cc) (zip [0..<length cc] (map fst cc)), Inr ())"
    by (rule for_io_emits) (rule scatter3d_ok [OF assms(1) assms(2) zip_upt_keys])
  from assms(1) have "shape1 X \<noteq> 1" by simp
  then show ?thesis
    using assms(1) by (simp add: plot_LDA_def Let_def sc closing_events_def emit_def return_io_def)
qed


lemma fst_seq_io: "fst (seq_io m k) = (case snd m of Inl e \<Rightarrow> fst m | Inr _ \<Rightarrow> fst m @ fst k)"
  by (cases m) (auto simp: seq_io_def bind_io_def split: sum.splits prod.splits)

lemma set_fst_seq_io: "set (fst (seq_io m k)) \<subseteq> set (fst m) \<union> set (fst k)"
  by (auto simp: fst_seq_io split: sum.splits)

lemma set_fst_for_io:
  "(\<And>x. x \<in> set xs \<Longrightarrow> set (fst (f x)) \<subseteq> A) \<Longrightarrow> set (fst (for_io xs f)) \<subseteq> A"
proof (induction xs)
  case Nil
  then show ?case by (simp add: return_io_def)
next
  case (Cons x xs)
  have "set (fst (for_io (x # xs) f)) \<subseteq> set (fst (f x)) \<union> set (fst (for_io xs f))"
    by (simp add: set_fst_seq_io)
  with Cons show ?case by fastforce
qed

lemma fst_bind_lift:
  "fst (bind_io (lift_io r) f) = (case r of Inl e \<Rightarrow> [] | Inr a \<Rightarrow> fst (f a))"
  by (cases r) simp_all

lemma scatter3d_events: "set (fst (scatter3d X y cc it)) \<subseteq> {ev. \<not> is_Annotate ev}"
  by (cases it) (auto simp: scatter3d_def fst_bind_lift emit_def is_Annotate_def split: sum.splits)

lemma plot_LDA_3d_no_annotation:
  "\<not> list_ex is_Annotate (fst (plot_LDA X y cc ev style sids 3 zangles out))"
proof -
  let ?A = "{ev. \<not> is_Annotate ev}"
  have sc: "set (fst (for_io (zip [0..<length cc] (map fst cc)) (scatter3d X y cc))) \<subseteq> ?A"
    by (rule set_fst_for_io) (rule scatter3d_events)
  have "set (fst (plot_LDA X y cc ev style sids 3 zangles out)) \<subseteq> ?A"
    using sc
    by (auto simp: plot_LDA_def Let_def fst_seq_io emit_def return_io_def raise_io_def
        is_Annotate_def split: sum.splits option.splits if_splits)
  then show ?thesis by (auto simp: list_ex_iff)
qed



section \<open>The 3D guard\<close>

text \<open>
  C1. When 3D rendering is requested (\<open>ndim = 3\<close>) and the coordinate matrix has fewer
  than 3 columns, \<^verbatim>\<open>plot_LDA\<close> leaves through \<^verbatim>\<open>sys.exit\<close> with the message about
  4 groups right after creating the figure: the exit status is 1, and neither
  \<^verbatim>\<open>savefig\<close> nor \<^verbatim>\<open>show\<close> is reached.
\<close>

theorem plot_LDA_3d_exits_below_three_columns:
  assumes "ndim = 3" and "shape1 X < 3"
  shows "plot_LDA X y cc ev style sids ndim zangles out = ([Figure], Inl (SystemExit groups_msg))
         \<and> exit_status (snd (plot_LDA X y cc ev style sids ndim zangles out)) = 1
         \<and> \<not> list_ex is_SaveFig (fst (plot_LDA X y cc ev style sids ndim zangles out))
         \<and> Show \<notin> set (fst (plot_LDA X y cc ev style sids ndim zangles out))"
  using assms by (simp add: plot_LDA_def exit_status_def is_SaveFig_def)

theorem plot_LDA_3d_exits_below_three_columns_witness:
  "(3::int) = 3 \<and> shape1 ex_X2 < 3
   \<and> plot_LDA ex_X2 ex_labels ex_colors (EVArr [0.75, 0.25]) False None 3 (Some (45, 30)) ''lda.png''
       = ([Figure], Inl (SystemExit groups_msg))
   \<and> exit_status (snd (plot_LDA ex_X2 ex_labels ex_colors (EVArr [0.75, 0.25]) False None 3
                          (Some (45, 30)) ''lda.png'')) = 1"
  using plot_LDA_3d_exits_below_three_columns
          [of 3 ex_X2 ex_labels ex_colors "EVArr [0.75, 0.25]" False None "Some (45, 30)" "''lda.png''"]
  by (simp add: ex_X2_def exit_status_def)

section \<open>Annotation requested in 3D\<close>

text \<open>
  With sample IDs given, 3D requested and a matrix of 2 columns, the guard of C1 comes
  first: the message about annotations is not printed, the call ends in
  \<^verbatim>\<open>sys.exit\<close> and nothing is saved.
\<close>

theorem annotation_in_3d_counterexample:
  "Print annot_msg \<notin> set (fst (plot_LDA ex_X2 ex_labels ex_colors (EVArr [0.75, 0.25]) False
                                   (Some ex_sids) 3 (Some (45, 30)) ''lda.png''))
   \<and> snd (plot_LDA ex_X2 ex_labels ex_colors (EVArr [0.75, 0.25]) False
             (Some ex_sids) 3 (Some (45, 30)) ''lda.png'') = Inl (SystemExit groups_msg)
   \<and> \<not> list_ex is_SaveFig (fst (plot_LDA ex_X2 ex_labels ex_colors (EVArr [0.75, 0.25]) False
                                   (Some ex_sids) 3 (Some (45, 30)) ''lda.png''))"
  by (simp add: plot_LDA_def ex_X2_def is_SaveFig_def)

text \<open>
  C9, amended. When sample IDs are given in 3D mode and the matrix has at least 3
  columns, \<^verbatim>\<open>plot_LDA\<close> prints the message about annotations right after
  creating the figure and otherwise behaves as without sample IDs: the same events
  follow and the call ends the same way. No point is annotated. With labels parallel
  to the rows and the view angles given, the call draws the 3D figure and ends with
  \<^verbatim>\<open>savefig\<close> on the output path, or with \<^verbatim>\<open>show\<close> when there is none.
\<close>

theorem annotation_in_3d_is_skipped:
  assumes "3 \<le> shape1 X"
  shows "fst (plot_LDA X y cc ev style (Some ss) 3 zangles out)
           = Figure # Print annot_msg # tl (fst (plot_LDA X y cc ev style None 3 zangles out))
         \<and> snd (plot_LDA X y cc ev style (Some ss) 3 zangles out)
           = snd (plot_LDA X y cc ev style None 3 zangles out)
         \<and> \<not> list_ex is_Annotate (fst (plot_LDA X y cc ev style (Some ss) 3 zangles out))
         \<and> (length y = length (data X) \<and> zangles = Some (azim, elev) \<longrightarrow>
              plot_LDA X y cc ev style (Some ss) 3 zangles out
                = ([Figure, Print annot_msg, AddSubplot True, ViewInit elev azim,
                    SetZLabel (axis_label ''LD3'' ev 2)]
                   @ map (scatter3d_event X y cc) (zip [0..<length cc] (map fst cc))
                   @ [SetXLabel (axis_label ''LD1'' ev 0), SetYLabel (axis_label ''LD2'' ev 1),
                      Legend, if out \<noteq> [] then SaveFig out ''none'' else Show],
                   Inr ()))"
proof -
  obtain es r where sc: "for_io (zip [0..<length cc] (map fst cc)) (scatter3d X y cc) = (es, r)"
    by fastforce
  have a: "fst (plot_LDA X y cc ev style (Some ss) 3 zangles out)
           = Figure # Print annot_msg # tl (fst (plot_LDA X y cc ev style None 3 zangles out))"
    using assms sc
    by (cases zangles; cases r)
       (auto simp: plot_LDA_def Let_def emit_def raise_io_def return_io_def)
  have b: "snd (plot_LDA X y cc ev style (Some ss) 3 zangles out)
           = snd (plot_LDA X y cc ev style None 3 zangles out)"
    using assms sc
    by (cases zangles; cases r)
       (auto simp: plot_LDA_def Let_def emit_def raise_io_def return_io_def)
  have d: "plot_LDA X y cc ev style (Some ss) 3 zangles out
                = ([Figure, Print annot_msg, AddSubplot True, ViewInit elev azim,
                    SetZLabel (axis_label ''LD3'' ev 2)]
                   @ map (scatter3d_event X y cc) (zip [0..<length cc] (map fst cc))
                   @ [SetXLabel (axis_label ''LD1'' ev 0), SetYLabel (axis_label ''LD2'' ev 1),
                      Legend, if out \<noteq> [] then SaveFig out ''none'' else Show],
                   Inr ())"
    if "length y = length (data X)" and "zangles = Some (azim, elev)"
    using plot_LDA_3d [OF assms that(1), of cc ev style "Some ss" azim elev out] that(2)
    by (simp add: closing_events_def)
  from a b d plot_LDA_3d_no_annotation show ?thesis by blast
qed

theorem annotation_in_3d_is_skipped_witness:
  "3 \<le> shape1 ex_X3 \<and> length ex_labels = length (data ex_X3)
   \<and> plot_LDA ex_X3 ex_labels ex_colors (EVArr [0.5, 0.25, 0.25]) False (Some ex_sids) 3
       (Some (45, 30)) ''lda.png''
     = ([Figure, Print annot_msg, AddSubplot True, ViewInit 30 45, SetZLabel (Pct ''LD3'' 25),
         Scatter ''A'' [2, 3] [1, 2] (Some [0, 7]) ''#8DD3C7'',
         Scatter ''B'' [-1] [5] (Some [1]) ''#FFFFB3'',
         Scatter ''C'' [4] [0] (Some [2]) ''#BEBADA'',
         SetXLabel (Pct ''LD1'' 50), SetYLabel (Pct ''LD2'' 25), Legend,
         SaveFig ''lda.png'' ''none''], Inr ())"
  using annotation_in_3d_is_skipped
          [of ex_X3 ex_labels ex_colors "EVArr [0.5, 0.25, 0.25]" False ex_sids "Some (45, 30)"
              "''lda.png''" 45 30]
  by (simp add: ex_X3_def ex_labels_def ex_colors_def scatter3d_event_def select_def
        axis_label_def upt_rec)

section \<open>The single-column 2D figure\<close>

lemma length_zip3: "length (zip3 as bs cs) = min (length as) (min (length bs) (length cs))"
  by (induction as bs cs rule: zip3.induct) auto

lemma nth_zip3:
  "k < length as \<Longrightarrow> k < length bs \<Longrightarrow> k < length cs
     \<Longrightarrow> zip3 as bs cs ! k = (as ! k, bs ! k, cs ! k)"
proof (induction as bs cs arbitrary: k rule: zip3.induct)
  case (1 a as b bs c cs)
  then show ?case by (cases k) auto
qed auto

lemma select_member:
  assumes "k < length (data X)" and "length y = length (data X)" and "y ! k = Str g"
  shows "data X ! k ! j \<in> set (select X y j g)"
proof -
  let ?col = "map (\<lambda>r. r ! j) (data X)"
  from assms have "k < length (zip ?col y)" by simp
  then have "zip ?col y ! k \<in> set (zip ?col y)" by (rule nth_mem)
  moreover from assms have "zip ?col y ! k = (data X ! k ! j, Str g)" by simp
  ultimately have "(data X ! k ! j, Str g) \<in> set (filter (\<lambda>p. snd p = Str g) (zip ?col y))"
    by simp
  then have "fst (data X ! k ! j, Str g) \<in> fst ` set (filter (\<lambda>p. snd p = Str g) (zip ?col y))"
    by (rule imageI)
  then show ?thesis by (simp add: select_def)
qed

text \<open>
  C4. In 2D mode, on a well-formed call (rows of the width \<^verbatim>\<open>shape[1]\<close>, labels
  parallel to the rows, and every label a key of the colour map when points are
  annotated): with exactly one column, the group at position \<open>i\<close> of the colour
  map's keys is scattered at the constant height \<open>i + 1\<close>, once per point of the
  group, and the y-axis range is set to (0.5, 2.5); with 2 or more columns the
  second column is the height and no y-axis range is set.
\<close>

theorem single_column_pseudo_y:
  assumes "ndim \<noteq> 3" and "wf_ndarray X" and "length y = length (data X)"
    and "shape1 X = 1 \<and> sids \<noteq> None \<longrightarrow> labels_are_keys y cc"
  shows "(shape1 X = 1 \<longrightarrow>
            plot_LDA X y cc ev style sids ndim zangles out =
              ([Figure, AddSubplot False]
               @ map (\<lambda>it. Scatter (snd it) (select X y 0 (snd it))
                              (replicate (length (select X y 0 (snd it))) (real (fst it) + 1))
                              None (the (map_of cc (snd it))))
                   (zip [0..<length cc] (map fst cc))
               @ annotations (map fst cc) sids X y
               @ [YLim 0.5 2.5]
               @ closing_events ev ndim style out, Inr ()))
       \<and> (2 \<le> shape1 X \<longrightarrow>
            plot_LDA X y cc ev style sids ndim zangles out =
              ([Figure, AddSubplot False]
               @ map (\<lambda>it. Scatter (snd it) (select X y 0 (snd it)) (select X y 1 (snd it))
                              None (the (map_of cc (snd it))))
                   (zip [0..<length cc] (map fst cc))
               @ annotations (map fst cc) sids X y
               @ closing_events ev ndim style out, Inr ())
            \<and> \<not> list_ex is_YLim (fst (plot_LDA X y cc ev style sids ndim zangles out)))"
proof (intro conjI impI)
  assume one: "shape1 X = 1"
  then have "1 \<le> shape1 X" by simp
  from plot_LDA_2d [OF assms(1) this assms(2,3,4), of ev style zangles out] one
  show "plot_LDA X y cc ev style sids ndim zangles out =
              ([Figure, AddSubplot False]
               @ map (\<lambda>it. Scatter (snd it) (select X y 0 (snd it))
                              (replicate (length (select X y 0 (snd it))) (real (fst it) + 1))
                              None (the (map_of cc (snd it))))
                   (zip [0..<length cc] (map fst cc))
               @ annotations (map fst cc) sids X y
               @ [YLim 0.5 2.5]
               @ closing_events ev ndim style out, Inr ())"
    by (simp add: scatter2d_event_def add.commute)
next
  assume two: "2 \<le> shape1 X"
  then have "1 \<le> shape1 X" "shape1 X \<noteq> 1" by simp_all
  from plot_LDA_2d [OF assms(1) this(1) assms(2,3,4), of ev style zangles out] this(2)
  show eq: "plot_LDA X y cc ev style sids ndim zangles out =
              ([Figure, AddSubplot False]
               @ map (\<lambda>it. Scatter (snd it) (select X y 0 (snd it)) (select X y 1 (snd it))
                              None (the (map_of cc (snd it))))
                   (zip [0..<length cc] (map fst cc))
               @ annotations (map fst cc) sids X y
               @ closing_events ev ndim style out, Inr ())"
    by (simp add: scatter2d_event_def)
  show "\<not> list_ex is_YLim (fst (plot_LDA X y cc ev style sids ndim zangles out))"
    unfolding eq
    by (auto simp: list_ex_iff is_YLim_def closing_events_def annotations_def annotation_def
        split: option.splits)
qed

theorem single_column_pseudo_y_witness:
  "(2::int) \<noteq> 3 \<and> wf_ndarray ex_X1 \<and> length ex_labels = length (data ex_X1)
   \<and> labels_are_keys ex_labels ex_colors \<and> shape1 ex_X1 = 1
   \<and> plot_LDA ex_X1 ex_labels ex_colors (EVArr [1]) False (Some ex_sids) 2 None ''lda.png''
       = ([Figure, AddSubplot False,
           Scatter ''A'' [2, 3] [1, 1] None ''#8DD3C7'',
           Scatter ''B'' [-1] [2] None ''#FFFFB3'',
           Scatter ''C'' [4] [3] None ''#BEBADA'',
           Annotate (Str ''s1'') [2, 1], Annotate (Str ''s2'') [-1, 2],
           Annotate (Str ''s3'') [4, 3], Annotate (Str ''s4'') [3, 1],
           YLim 0.5 2.5,
           SetXLabel (Pct ''LD1'' 100), SetYLabel (Plain ''LD2''), Legend,
           SaveFig ''lda.png'' ''none''], Inr ())
   \<and> wf_ndarray ex_X2 \<and> length ex_labels = length (data ex_X2) \<and> 2 \<le> shape1 ex_X2
   \<and> plot_LDA ex_X2 ex_labels ex_colors (EVArr [0.75, 0.25]) False None 2 None ''lda.png''
       = ([Figure, AddSubplot False,
           Scatter ''A'' [2, 3] [1, 2] None ''#8DD3C7'',
           Scatter ''B'' [-1] [5] None ''#FFFFB3'',
           Scatter ''C'' [4] [0] None ''#BEBADA'',
           SetXLabel (Pct ''LD1'' 75), SetYLabel (Pct ''LD2'' 25), Legend,
           SaveFig ''lda.png'' ''none''], Inr ())
   \<and> \<not> list_ex is_YLim
         (fst (plot_LDA ex_X2 ex_labels ex_colors (EVArr [0.75, 0.25]) False None 2 None ''lda.png''))"
proof -
  have h1: "(2::int) \<noteq> 3" "wf_ndarray ex_X1" "length ex_labels = length (data ex_X1)"
    "shape1 ex_X1 = 1 \<and> Some ex_sids \<noteq> None \<longrightarrow> labels_are_keys ex_labels ex_colors"
    "shape1 ex_X1 = 1"
    by (simp_all add: wf_ndarray_def ex_X1_def ex_labels_def ex_colors_def labels_are_keys_def)
  have h2: "wf_ndarray ex_X2" "length ex_labels = length (data ex_X2)"
    "shape1 ex_X2 = 1 \<and> (None :: cell list option) \<noteq> None
       \<longrightarrow> labels_are_keys ex_labels ex_colors"
    "2 \<le> shape1 ex_X2"
    by (simp_all add: wf_ndarray_def ex_X2_def ex_labels_def)
  note a = single_column_pseudo_y [OF h1(1,2,3,4), of "EVArr [1]" False None "''lda.png''"]
  note b = single_column_pseudo_y [OF h1(1) h2(1,2,3), of "EVArr [0.75, 0.25]" False None "''lda.png''"]
  from a h1(5) have c: "plot_LDA ex_X1 ex_labels ex_colors (EVArr [1]) False (Some ex_sids) 2 None ''lda.png''
       = ([Figure, AddSubplot False,
           Scatter ''A'' [2, 3] [1, 1] None ''#8DD3C7'',
           Scatter ''B'' [-1] [2] None ''#FFFFB3'',
           Scatter ''C'' [4] [3] None ''#BEBADA'',
           Annotate (Str ''s1'') [2, 1], Annotate (Str ''s2'') [-1, 2],
           Annotate (Str ''s3'') [4, 3], Annotate (Str ''s4'') [3, 1],
           YLim 0.5 2.5,
           SetXLabel (Pct ''LD1'' 100), SetYLabel (Plain ''LD2''), Legend,
           SaveFig ''lda.png'' ''none''], Inr ())"
    by (simp add: ex_X1_def ex_labels_def ex_colors_def ex_sids_def select_def annotations_def
          annotation_def key_of_def closing_events_def axis_label_def)
  from b h2(4) have d: "plot_LDA ex_X2 ex_labels ex_colors (EVArr [0.75, 0.25]) False None 2 None ''lda.png''
       = ([Figure, AddSubplot False,
           Scatter ''A'' [2, 3] [1, 2] None ''#8DD3C7'',
           Scatter ''B'' [-1] [5] None ''#FFFFB3'',
           Scatter ''C'' [4] [0] None ''#BEBADA'',
           SetXLabel (Pct ''LD1'' 75), SetYLabel (Pct ''LD2'' 25), Legend,
           SaveFig ''lda.png'' ''none''], Inr ())"
    by (simp add: ex_X2_def ex_labels_def ex_colors_def select_def annotations_def
          closing_events_def axis_label_def)
  from b h2(4) have e: "\<not> list_ex is_YLim
         (fst (plot_LDA ex_X2 ex_labels ex_colors (EVArr [0.75, 0.25]) False None 2 None ''lda.png''))"
    by blast
  from h1 h2 c d e show ?thesis
    by (simp add: labels_are_keys_def ex_labels_def ex_colors_def)
qed

text \<open>
  C10. In 2D mode with a single column and sample IDs given, the annotation of the
  \<open>k\<close>-th sample is placed at \<open>(x\<^sub>k, i + 1)\<close>, where \<open>i\<close> is the position of the
  sample's group among the colour map's keys, and the group's scatter call, whose
  heights are all \<open>i + 1\<close>, has a point with the abscissa \<open>x\<^sub>k\<close>: the annotation sits
  on the sample's own point.
\<close>

theorem annotation_meets_pseudo_y:
  assumes "ndim \<noteq> 3" and "shape1 X = 1" and "wf_ndarray X" and "length y = length (data X)"
    and "labels_are_keys y cc" and "k < length ss" and "k < length y"
  shows "\<exists>g i. y ! k = Str g \<and> index_of (map fst cc) g = Some i
           \<and> Annotate (ss ! k) [data X ! k ! 0, real i + 1]
               \<in> set (fst (plot_LDA X y cc ev style (Some ss) ndim zangles out))
           \<and> (\<exists>xs c. Scatter g xs (replicate (length xs) (real i + 1)) None c
                        \<in> set (fst (plot_LDA X y cc ev style (Some ss) ndim zangles out))
                     \<and> data X ! k ! 0 \<in> set xs)"
proof -
  let ?cats = "map fst cc"
  let ?es = "fst (plot_LDA X y cc ev style (Some ss) ndim zangles out)"
  from assms(2) have "1 \<le> shape1 X" by simp
  from plot_LDA_2d [OF assms(1) this assms(3,4), of "Some ss" cc ev style zangles out] assms(5)
  have es: "?es = [Figure, AddSubplot False]
            @ map (scatter2d_event X y cc) (zip [0..<length cc] ?cats)
            @ annotations ?cats (Some ss) X y
            @ (if shape1 X = 1 then [YLim 0.5 2.5] else [])
            @ closing_events ev ndim style out"
    by simp
  from assms(5,7) have "y ! k \<in> Str ` fst ` set cc"
    by (simp add: labels_are_keys_def list_all_length)
  then obtain g where g: "y ! k = Str g" "g \<in> set ?cats"
    by auto
  then obtain i where i: "index_of ?cats g = Some i" "i < length ?cats" "?cats ! i = g"
    using index_of_Some by fastforce
  from assms(4,7) have kX: "k < length (data X)" by simp
  with assms(2,3) have len: "length (data X ! k) = 1"
    by (simp add: wf_ndarray_def list_all_length)
  have "zip3 ss (data X) y ! k = (ss ! k, data X ! k, y ! k)"
    using assms(6,7) kX by (rule_tac nth_zip3)
  moreover have "k < length (zip3 ss (data X) y)"
    using assms(6,7) kX by (simp add: length_zip3)
  ultimately have "(ss ! k, data X ! k, y ! k) \<in> set (zip3 ss (data X) y)"
    by (metis nth_mem)
  then have "annotation ?cats (ss ! k, data X ! k, y ! k) \<in> set (annotations ?cats (Some ss) X y)"
    by (simp add: annotations_def)
  moreover have "annotation ?cats (ss ! k, data X ! k, y ! k)
                   = Annotate (ss ! k) [data X ! k ! 0, real i + 1]"
    using len g i by (simp add: annotation_def key_of_def)
  ultimately have an: "Annotate (ss ! k) [data X ! k ! 0, real i + 1] \<in> set ?es"
    unfolding es by simp
  have "zip [0..<length cc] ?cats ! i = (i, g)" and "i < length (zip [0..<length cc] ?cats)"
    using i by simp_all
  then have "(i, g) \<in> set (zip [0..<length cc] ?cats)"
    by (metis nth_mem)
  then have "scatter2d_event X y cc (i, g) \<in> set ?es"
    unfolding es by simp
  then have sc: "Scatter g (select X y 0 g) (replicate (length (select X y 0 g)) (real i + 1))
                   None (the (map_of cc g)) \<in> set ?es"
    using assms(2) by (simp add: scatter2d_event_def add.commute)
  have "data X ! k ! 0 \<in> set (select X y 0 g)"
    using kX assms(4) g(1) by (rule select_member)
  with an sc g(1) i(1) show ?thesis by blast
qed


theorem annotation_meets_pseudo_y_witness:
  "(2::int) \<noteq> 3 \<and> shape1 ex_X1 = 1 \<and> wf_ndarray ex_X1 \<and> length ex_labels = length (data ex_X1)
   \<and> labels_are_keys ex_labels ex_colors \<and> 2 < length ex_sids \<and> 2 < length ex_labels
   \<and> (\<exists>g i. ex_labels ! 2 = Str g \<and> index_of (map fst ex_colors) g = Some i
           \<and> Annotate (ex_sids ! 2) [data ex_X1 ! 2 ! 0, real i + 1]
               \<in> set (fst (plot_LDA ex_X1 ex_labels ex_colors (EVStr ''NA'') False (Some ex_sids) 2 None []))
           \<and> (\<exists>xs c. Scatter g xs (replicate (length xs) (real i + 1)) None c
                        \<in> set (fst (plot_LDA ex_X1 ex_labels ex_colors (EVStr ''NA'') False (Some ex_sids) 2 None []))
                     \<and> data ex_X1 ! 2 ! 0 \<in> set xs))"
proof -
  have h: "(2::int) \<noteq> 3" "shape1 ex_X1 = 1" "wf_ndarray ex_X1"
    "length ex_labels = length (data ex_X1)" "labels_are_keys ex_labels ex_colors"
    "2 < length ex_sids" "2 < length ex_labels"
    by (simp_all add: wf_ndarray_def ex_X1_def ex_labels_def ex_colors_def ex_sids_def
          labels_are_keys_def)
  from annotation_meets_pseudo_y [OF h, of "EVStr ''NA''" False None "[]"] h
  show ?thesis by blast
qed

section \<open>The string in place of the ratios\<close>

lemma axis_label_NA: "axis_label name (EVStr ''NA'') k = Plain name"
  by (cases "k < 2") (simp_all add: axis_label_def)

lemma fst_return_io [simp]: "fst (return_io a) = []"
  by (simp add: return_io_def)

lemma snd_return_io [simp]: "snd (return_io a) = Inr a"
  by (simp add: return_io_def)

lemma snd_plot_LDA_exp_var:
  "snd (plot_LDA X y cc ev style sids ndim zangles out)
     = snd (plot_LDA X y cc ev' style sids ndim zangles out)"
proof -
  obtain es1 r1 where a: "for_io (zip [0..<length cc] (map fst cc)) (scatter2d X y cc) = (es1, r1)"
    by fastforce
  obtain es2 r2 where b: "(case sids of None \<Rightarrow> return_io ()
      | Some ss \<Rightarrow> for_io (zip3 ss (data X) y) (annotate_point (map fst cc))) = (es2, r2)"
    by fastforce
  obtain es3 r3 where c: "for_io (zip [0..<length cc] (map fst cc)) (scatter3d X y cc) = (es3, r3)"
    by fastforce
  show ?thesis
  proof (cases "ndim = 3")
    case True
    with c show ?thesis
      by (cases r3; cases zangles)
         (auto simp: plot_LDA_def Let_def emit_def return_io_def raise_io_def)
  next
    case False
    with a b show ?thesis
      by (cases r1; cases r2) (simp_all add: plot_LDA_def Let_def emit_def)
  qed
qed

lemma run_LDA_NA:
  assumes "df_getitem df ''Condition'' = Inr y" and "fit (lda_X df) y = Inr ft"
    and "explained_variance_ratio ft = None"
  shows "run_LDA fit df = ([Print na_msg], Inr (transformed ft, y, EVStr ''NA''))"
  using assms by (simp add: run_LDA_def fit_and_report_def return_io_def)


text \<open>
  With the string in place of the ratios, 3D requested, 2 columns and an output path,
  the guard of C1 ends the call: nothing is saved.
\<close>

theorem sentinel_counterexample:
  "snd (plot_LDA ex_X2 ex_labels ex_colors (EVStr ''NA'') False None 3 (Some (45, 30)) ''lda.png'')
     = Inl (SystemExit groups_msg)
   \<and> \<not> list_ex is_SaveFig
         (fst (plot_LDA ex_X2 ex_labels ex_colors (EVStr ''NA'') False None 3 (Some (45, 30))
                 ''lda.png''))"
  by (simp add: plot_LDA_def ex_X2_def is_SaveFig_def)

text \<open>
  C2, amended. When the fitted object has no \<^verbatim>\<open>explained_variance_ratio_\<close>,
  \<^verbatim>\<open>run_LDA\<close> prints a message and returns the string \<^verbatim>\<open>"NA"\<close> in place of the
  ratios. With that string every axis label is the bare text, and \<^verbatim>\<open>plot_LDA\<close>
  ends as it would with any ratios. On a well-formed call that the guard of C1 lets
  through (2D with at least one column, or 3D with at least 3 columns and the view
  angles), \<^verbatim>\<open>plot_LDA\<close> sets the bare labels \<^verbatim>\<open>LD1\<close>, \<^verbatim>\<open>LD2\<close> (and \<^verbatim>\<open>LD3\<close> in 3D),
  returns, and its last call is \<^verbatim>\<open>savefig\<close> on the output path when one is given.
\<close>

theorem sentinel_gives_bare_labels:
  "(df_getitem df ''Condition'' = Inr yc \<and> fit (lda_X df) yc = Inr ft
      \<and> explained_variance_ratio ft = None
      \<longrightarrow> run_LDA fit df = ([Print na_msg], Inr (transformed ft, yc, EVStr ''NA'')))
   \<and> axis_label name (EVStr ''NA'') k = Plain name
   \<and> snd (plot_LDA X y cc (EVStr ''NA'') style sids ndim zangles out)
       = snd (plot_LDA X y cc ev style sids ndim zangles out)
   \<and> (ndim \<noteq> 3 \<and> 1 \<le> shape1 X \<and> wf_ndarray X \<and> length y = length (data X)
        \<and> (shape1 X = 1 \<and> sids \<noteq> None \<longrightarrow> labels_are_keys y cc) \<longrightarrow>
        plot_LDA X y cc (EVStr ''NA'') style sids ndim zangles out =
          ([Figure, AddSubplot False]
           @ map (scatter2d_event X y cc) (zip [0..<length cc] (map fst cc))
           @ annotations (map fst cc) sids X y
           @ (if shape1 X = 1 then [YLim 0.5 2.5] else [])
           @ [SetXLabel (Plain ''LD1''), SetYLabel (Plain ''LD2''), Legend]
           @ (if ndim = 2 \<and> style then [GgplotStyle] else [])
           @ [if out \<noteq> [] then SaveFig out (if ndim = 2 \<and> style then ''0.8'' else ''none'')
              else Show], Inr ()))
   \<and> (ndim = 3 \<and> 3 \<le> shape1 X \<and> length y = length (data X) \<and> zangles = Some (azim, elev) \<longrightarrow>
        plot_LDA X y cc (EVStr ''NA'') style sids ndim zangles out =
          ([Figure] @ (if sids \<noteq> None then [Print annot_msg] else [])
           @ [AddSubplot True, ViewInit elev azim, SetZLabel (Plain ''LD3'')]
           @ map (scatter3d_event X y cc) (zip [0..<length cc] (map fst cc))
           @ [SetXLabel (Plain ''LD1''), SetYLabel (Plain ''LD2''), Legend,
              if out \<noteq> [] then SaveFig out ''none'' else Show], Inr ()))"
proof (intro conjI impI)
  assume "df_getitem df ''Condition'' = Inr yc \<and> fit (lda_X df) yc = Inr ft
            \<and> explained_variance_ratio ft = None"
  then show "run_LDA fit df = ([Print na_msg], Inr (transformed ft, yc, EVStr ''NA''))"
    by (simp add: run_LDA_NA)
next
  show "axis_label name (EVStr ''NA'') k = Plain name"
    by (rule axis_label_NA)
next
  show "snd (plot_LDA X y cc (EVStr ''NA'') style sids ndim zangles out)
          = snd (plot_LDA X y cc ev style sids ndim zangles out)"
    by (rule snd_plot_LDA_exp_var)
next
  assume h: "ndim \<noteq> 3 \<and> 1 \<le> shape1 X \<and> wf_ndarray X \<and> length y = length (data X)
        \<and> (shape1 X = 1 \<and> sids \<noteq> None \<longrightarrow> labels_are_keys y cc)"
  then have "shape1 X = 1 \<and> sids \<noteq> None \<longrightarrow> labels_are_keys y cc" by simp
  with h have "plot_LDA X y cc (EVStr ''NA'') style sids ndim zangles out =
           ([Figure, AddSubplot False]
            @ map (scatter2d_event X y cc) (zip [0..<length cc] (map fst cc))
            @ annotations (map fst cc) sids X y
            @ (if shape1 X = 1 then [YLim 0.5 2.5] else [])
            @ closing_events (EVStr ''NA'') ndim style out, Inr ())"
    by (intro plot_LDA_2d) simp_all
  then show "plot_LDA X y cc (EVStr ''NA'') style sids ndim zangles out =
          ([Figure, AddSubplot False]
           @ map (scatter2d_event X y cc) (zip [0..<length cc] (map fst cc))
           @ annotations (map fst cc) sids X y
           @ (if shape1 X = 1 then [YLim 0.5 2.5] else [])
           @ [SetXLabel (Plain ''LD1''), SetYLabel (Plain ''LD2''), Legend]
           @ (if ndim = 2 \<and> style then [GgplotStyle] else [])
           @ [if out \<noteq> [] then SaveFig out (if ndim = 2 \<and> style then ''0.8'' else ''none'')
              else Show], Inr ())"
    by (simp add: closing_events_def axis_label_NA)
next
  assume h: "ndim = 3 \<and> 3 \<le> shape1 X \<and> length y = length (data X) \<and> zangles = Some (azim, elev)"
  then have "plot_LDA X y cc (EVStr ''NA'') style sids 3 (Some (azim, elev)) out =
           ([Figure] @ (if sids \<noteq> None then [Print annot_msg] else [])
            @ [AddSubplot True, ViewInit elev azim, SetZLabel (axis_label ''LD3'' (EVStr ''NA'') 2)]
            @ map (scatter3d_event X y cc) (zip [0..<length cc] (map fst cc))
            @ closing_events (EVStr ''NA'') 3 style out, Inr ())"
    by (intro plot_LDA_3d) simp_all
  with h show "plot_LDA X y cc (EVStr ''NA'') style sids ndim zangles out =
          ([Figure] @ (if sids \<noteq> None then [Print annot_msg] else [])
           @ [AddSubplot True, ViewInit elev azim, SetZLabel (Plain ''LD3'')]
           @ map (scatter3d_event X y cc) (zip [0..<length cc] (map fst cc))
           @ [SetXLabel (Plain ''LD1''), SetYLabel (Plain ''LD2''), Legend,
              if out \<noteq> [] then SaveFig out ''none'' else Show], Inr ())"
    by (simp add: closing_events_def axis_label_NA)
qed

theorem sentinel_gives_bare_labels_witness:
  "df_getitem ex_frame ''Condition'' = Inr ex_labels
   \<and> ex_fit_na (lda_X ex_frame) ex_labels
       = Inr \<lparr>transformed = ex_X1, explained_variance_ratio = None\<rparr>
   \<and> run_LDA ex_fit_na ex_frame = ([Print na_msg], Inr (ex_X1, ex_labels, EVStr ''NA''))
   \<and> (2::int) \<noteq> 3 \<and> 1 \<le> shape1 ex_X1 \<and> wf_ndarray ex_X1
   \<and> length ex_labels = length (data ex_X1) \<and> labels_are_keys ex_labels ex_colors
   \<and> plot_LDA ex_X1 ex_labels ex_colors (EVStr ''NA'') False (Some ex_sids) 2 None ''lda.png''
       = ([Figure, AddSubplot False,
           Scatter ''A'' [2, 3] [1, 1] None ''#8DD3C7'',
           Scatter ''B'' [-1] [2] None ''#FFFFB3'',
           Scatter ''C'' [4] [3] None ''#BEBADA'',
           Annotate (Str ''s1'') [2, 1], Annotate (Str ''s2'') [-1, 2],
           Annotate (Str ''s3'') [4, 3], Annotate (Str ''s4'') [3, 1],
           YLim 0.5 2.5,
           SetXLabel (Plain ''LD1''), SetYLabel (Plain ''LD2''), Legend,
           SaveFig ''lda.png'' ''none''], Inr ())
   \<and> 3 \<le> shape1 ex_X3 \<and> length ex_labels = length (data ex_X3)
   \<and> plot_LDA ex_X3 ex_labels ex_colors (EVStr ''NA'') False None 3 (Some (45, 30)) ''lda.png''
       = ([Figure, AddSubplot True, ViewInit 30 45, SetZLabel (Plain ''LD3''),
           Scatter ''A'' [2, 3] [1, 2] (Some [0, 7]) ''#8DD3C7'',
           Scatter ''B'' [-1] [5] (Some [1]) ''#FFFFB3'',
           Scatter ''C'' [4] [0] (Some [2]) ''#BEBADA'',
           SetXLabel (Plain ''LD1''), SetYLabel (Plain ''LD2''), Legend,
           SaveFig ''lda.png'' ''none''], Inr ())"
proof -
  have g: "df_getitem ex_frame ''Condition'' = Inr ex_labels"
    by (simp add: df_getitem_def ex_frame_def ex_labels_def getitem_def upt_rec)
  have f: "ex_fit_na (lda_X ex_frame) ex_labels
             = Inr \<lparr>transformed = ex_X1, explained_variance_ratio = None\<rparr>"
    by (simp add: ex_fit_na_def)
  have h1: "(2::int) \<noteq> 3" "1 \<le> shape1 ex_X1" "wf_ndarray ex_X1"
    "length ex_labels = length (data ex_X1)" "labels_are_keys ex_labels ex_colors"
    by (simp_all add: wf_ndarray_def ex_X1_def ex_labels_def ex_colors_def labels_are_keys_def)
  have h3: "3 \<le> shape1 ex_X3" "length ex_labels = length (data ex_X3)"
    by (simp_all add: ex_X3_def ex_labels_def)
  note a = sentinel_gives_bare_labels
             [where df = ex_frame and yc = ex_labels and fit = ex_fit_na
                and ft = "\<lparr>transformed = ex_X1, explained_variance_ratio = None\<rparr>"
                and X = ex_X1 and y = ex_labels and cc = ex_colors and style = False
                and sids = "Some ex_sids" and ndim = 2 and zangles = None and out = "''lda.png''"]
  note b = sentinel_gives_bare_labels
             [where X = ex_X3 and y = ex_labels and cc = ex_colors and style = False
                and sids = None and ndim = 3 and zangles = "Some (45, 30)" and out = "''lda.png''"
                and azim = 45 and elev = 30]
  from a g f have r: "run_LDA ex_fit_na ex_frame = ([Print na_msg], Inr (ex_X1, ex_labels, EVStr ''NA''))"
    by simp
  from a h1 have c: "plot_LDA ex_X1 ex_labels ex_colors (EVStr ''NA'') False (Some ex_sids) 2 None ''lda.png''
       = ([Figure, AddSubplot False,
           Scatter ''A'' [2, 3] [1, 1] None ''#8DD3C7'',
           Scatter ''B'' [-1] [2] None ''#FFFFB3'',
           Scatter ''C'' [4] [3] None ''#BEBADA'',
           Annotate (Str ''s1'') [2, 1], Annotate (Str ''s2'') [-1, 2],
           Annotate (Str ''s3'') [4, 3], Annotate (Str ''s4'') [3, 1],
           YLim 0.5 2.5,
           SetXLabel (Plain ''LD1''), SetYLabel (Plain ''LD2''), Legend,
           SaveFig ''lda.png'' ''none''], Inr ())"
    by (simp add: ex_X1_def ex_labels_def ex_colors_def ex_sids_def select_def annotations_def
          annotation_def key_of_def scatter2d_event_def)
  from b h3 have d: "plot_LDA ex_X3 ex_labels ex_colors (EVStr ''NA'') False None 3 (Some (45, 30)) ''lda.png''
       = ([Figure, AddSubplot True, ViewInit 30 45, SetZLabel (Plain ''LD3''),
           Scatter ''A'' [2, 3] [1, 2] (Some [0, 7]) ''#8DD3C7'',
           Scatter ''B'' [-1] [5] (Some [1]) ''#FFFFB3'',
           Scatter ''C'' [4] [0] (Some [2]) ''#BEBADA'',
           SetXLabel (Plain ''LD1''), SetYLabel (Plain ''LD2''), Legend,
           SaveFig ''lda.png'' ''none''], Inr ())"
    by (simp add: ex_X3_def ex_labels_def ex_colors_def select_def scatter3d_event_def)
  from g f r h1 c h3 d show ?thesis by blast
qed

section \<open>Frames\<close>

lemma map_err_Inr:
  "map_err f xs = Inr ys \<Longrightarrow> list_all2 (\<lambda>x y. f x = Inr y) xs ys"
  by (induction xs arbitrary: ys) (auto split: sum.splits)

lemma map_err_Inl: "map_err f xs = Inl e \<Longrightarrow> \<exists>x\<in>set xs. f x = Inl e"
  by (induction xs) (auto split: sum.splits)

lemma map_err_all_Inr: "(\<And>x. x \<in> set xs \<Longrightarrow> f x = Inr (g x)) \<Longrightarrow> map_err f xs = Inr (map g xs)"
  by (induction xs) auto

lemma map_err_fails: "x \<in> set xs \<Longrightarrow> f x = Inl e \<Longrightarrow> \<exists>e'. map_err f xs = Inl e'"
  by (induction xs) (auto split: sum.splits)

lemma insert0_ok:
  assumes "name \<notin> set (columns df)" and "length vs = length (frows df)"
  shows "insert0 name vs df = Inr (prepend_column name vs df)"
  using assms by (simp add: insert0_def prepend_column_def)

lemma insert0_Inr:
  "insert0 name vs df = Inr df' \<Longrightarrow>
     name \<notin> set (columns df) \<and> length vs = length (frows df) \<and> df' = prepend_column name vs df"
  by (auto simp: insert0_def prepend_column_def split: if_splits)

lemma index_prepend_column:
  assumes "length vs = length (frows df)"
  shows "map fst (frows (prepend_column name vs df)) = map fst (frows df)"
  using assms by (intro nth_equalityI) (simp_all add: prepend_column_def)

lemma hd_prepend_column:
  assumes "length vs = length (frows df)"
  shows "map (\<lambda>row. hd (snd row)) (frows (prepend_column name vs df)) = vs"
  using assms by (intro nth_equalityI) (simp_all add: prepend_column_def)

lemma tl_prepend_column:
  assumes "length vs = length (frows df)"
  shows "map (\<lambda>row. tl (snd row)) (frows (prepend_column name vs df)) = map snd (frows df)"
  using assms by (intro nth_equalityI) (simp_all add: prepend_column_def)


section \<open>\<^verbatim>\<open>run_LDA\<close> splits the frame\<close>

lemma condition_positions:
  assumes "name \<notin> set cs"
  shows "filter (\<lambda>j. (name # cs) ! j = name) [0..<Suc (length cs)] = [0]"
proof -
  have "[0..<Suc (length cs)] = 0 # map Suc [0..<length cs]"
    by (simp add: upt_conv_Cons map_Suc_upt del: upt_Suc)
  moreover have "filter (\<lambda>j. (name # cs) ! j = name) (map Suc [0..<length cs]) = []"
    using assms by (auto simp: filter_empty_conv)
  ultimately show ?thesis by simp
qed

lemma keep_other_columns:
  "name \<notin> set cs \<Longrightarrow> length xs = length cs
     \<Longrightarrow> map snd (filter (\<lambda>p. fst p \<noteq> name) (zip cs xs)) = xs"
proof (induction cs arbitrary: xs)
  case Nil
  then show ?case by simp
next
  case (Cons c cs)
  then show ?case by (cases xs) auto
qed

lemma row_shape:
  assumes "columns df = name # cs" and "wf_frame df" and "row \<in> set (frows df)"
  obtains x xs where "snd row = x # xs" and "length xs = length cs"
proof -
  from assms have "length (snd row) = Suc (length cs)"
    by (simp add: wf_frame_def list_all_iff)
  then show ?thesis by (cases "snd row") (auto intro: that)
qed

lemma lda_X_tl:
  assumes "columns df = name # cs" and "wf_frame df"
  shows "lda_X df = map (\<lambda>row. tl (snd row)) (frows df)"
  unfolding lda_X_def
proof (rule map_cong [OF refl])
  fix row assume "row \<in> set (frows df)"
  with assms obtain x xs where "snd row = x # xs" "length xs = length cs"
    by (rule row_shape)
  with assms(1) show "drop 1 (take (length (columns df)) (snd row)) = tl (snd row)"
    by simp
qed

lemma features_except_tl:
  assumes "columns df = name # cs" and "name \<notin> set cs" and "wf_frame df"
  shows "features_except name df = map (\<lambda>row. tl (snd row)) (frows df)"
  unfolding features_except_def
proof (rule map_cong [OF refl])
  fix row assume "row \<in> set (frows df)"
  then obtain x xs where "snd row = x # xs" "length xs = length cs"
    by (rule row_shape [OF assms(1,3)])
  with assms(1,2)
  show "map snd (filter (\<lambda>p. fst p \<noteq> name) (zip (columns df) (snd row))) = tl (snd row)"
    by (simp add: keep_other_columns)
qed

lemma column_named_hd:
  assumes "columns df = name # cs" and "wf_frame df"
  shows "column_named name df = map (\<lambda>row. hd (snd row)) (frows df)"
  unfolding column_named_def
proof (rule map_cong [OF refl])
  fix row assume "row \<in> set (frows df)"
  with assms obtain x xs where "snd row = x # xs" "length xs = length cs"
    by (rule row_shape)
  with assms(1) show "the (map_of (zip (columns df) (snd row)) name) = hd (snd row)"
    by simp
qed

lemma df_getitem_hd:
  assumes "columns df = name # cs" and "name \<notin> set cs" and "wf_frame df"
  shows "df_getitem df name = Inr (map (\<lambda>row. hd (snd row)) (frows df))"
proof -
  have "map_err (\<lambda>row. getitem (snd row) 0) (frows df) = Inr (map (\<lambda>row. hd (snd row)) (frows df))"
  proof (rule map_err_all_Inr)
    fix row assume "row \<in> set (frows df)"
    then obtain x xs where "snd row = x # xs" "length xs = length cs"
      by (rule row_shape [OF assms(1,3)])
    then show "getitem (snd row) 0 = Inr (hd (snd row))"
      by (simp add: getitem_def)
  qed
  with assms(1) condition_positions [OF assms(2)] show ?thesis
    by (simp add: df_getitem_def del: upt_Suc)
qed

lemma fit_and_report_Inr:
  "fit X y = Inr ft \<Longrightarrow>
     fit_and_report fit X y
       = (case explained_variance_ratio ft of
            None \<Rightarrow> ([Print na_msg], Inr (transformed ft, y, EVStr ''NA''))
          | Some r \<Rightarrow> ([], Inr (transformed ft, y, EVArr r)))"
  by (simp add: fit_and_report_def return_io_def split: option.splits)

lemma fit_and_report_Inl: "fit X y = Inl e \<Longrightarrow> fit_and_report fit X y = ([], Inl e)"
  by (simp add: fit_and_report_def)

text \<open>
  C5. For a frame whose first column is \<^verbatim>\<open>Condition\<close> (the only column of that name,
  every row of the frame's width), \<^verbatim>\<open>run_LDA\<close> fits on all columns except
  \<^verbatim>\<open>Condition\<close> as features and on the \<^verbatim>\<open>Condition\<close> column as labels. When the fit
  succeeds, the labels come back unchanged with the fitted coordinates, one label per
  row of the frame, and so one per row of the coordinates when the fit returns a row
  for each row it was given; when the fit raises, \<^verbatim>\<open>run_LDA\<close> raises the same.
\<close>

theorem run_LDA_features_and_labels:
  assumes "columns df = ''Condition'' # cs" and "''Condition'' \<notin> set cs" and "wf_frame df"
  shows "run_LDA fit df
           = fit_and_report fit (features_except ''Condition'' df) (column_named ''Condition'' df)
         \<and> length (features_except ''Condition'' df) = length (frows df)
         \<and> length (column_named ''Condition'' df) = length (frows df)
         \<and> (\<forall>ft. fit (features_except ''Condition'' df) (column_named ''Condition'' df) = Inr ft
               \<longrightarrow> (\<exists>es ev. run_LDA fit df
                              = (es, Inr (transformed ft, column_named ''Condition'' df, ev)))
                 \<and> (length (data (transformed ft)) = length (features_except ''Condition'' df)
                      \<longrightarrow> length (column_named ''Condition'' df) = length (data (transformed ft))))
         \<and> (\<forall>e. fit (features_except ''Condition'' df) (column_named ''Condition'' df) = Inl e
               \<longrightarrow> run_LDA fit df = ([], Inl e))"
proof -
  let ?X = "features_except ''Condition'' df" and ?y = "column_named ''Condition'' df"
  have X: "lda_X df = ?X"
    using assms by (simp add: lda_X_tl features_except_tl)
  have y: "df_getitem df ''Condition'' = Inr ?y"
    using assms by (simp add: df_getitem_hd column_named_hd)
  have run: "run_LDA fit df = fit_and_report fit ?X ?y"
    by (simp add: run_LDA_def X y)
  have lens: "length ?X = length (frows df)" "length ?y = length (frows df)"
    by (simp_all add: features_except_def column_named_def)
  have ok: "\<exists>es ev. run_LDA fit df = (es, Inr (transformed ft, ?y, ev))"
    if "fit ?X ?y = Inr ft" for ft
    unfolding run using that by (cases "explained_variance_ratio ft") (simp_all add: fit_and_report_Inr)
  have bad: "run_LDA fit df = ([], Inl e)" if "fit ?X ?y = Inl e" for e
    unfolding run using that by (rule fit_and_report_Inl)
  from run lens ok bad show ?thesis by simp
qed

theorem run_LDA_features_and_labels_witness:
  "columns ex_frame = ''Condition'' # [''s1'', ''s2'', ''s3'', ''s4'']
   \<and> ''Condition'' \<notin> set [''s1'', ''s2'', ''s3'', ''s4''] \<and> wf_frame ex_frame
   \<and> features_except ''Condition'' ex_frame
       = [[Flt 0, Flt 3, Flt 5, Flt 1], [Flt 3, Flt 0, Flt 4, Flt 3],
          [Flt 5, Flt 4, Flt 0, Flt 5], [Flt 1, Flt 3, Flt 5, Flt 0]]
   \<and> column_named ''Condition'' ex_frame = ex_labels
   \<and> run_LDA ex_fit ex_frame = ([], Inr (ex_X2, ex_labels, EVArr [0.75, 0.25]))
   \<and> length ex_labels = length (data ex_X2)"
proof -
  have h: "columns ex_frame = ''Condition'' # [''s1'', ''s2'', ''s3'', ''s4'']"
    "''Condition'' \<notin> set [''s1'', ''s2'', ''s3'', ''s4'']" "wf_frame ex_frame"
    by (simp_all add: ex_frame_def wf_frame_def)
  have X: "features_except ''Condition'' ex_frame
       = [[Flt 0, Flt 3, Flt 5, Flt 1], [Flt 3, Flt 0, Flt 4, Flt 3],
          [Flt 5, Flt 4, Flt 0, Flt 5], [Flt 1, Flt 3, Flt 5, Flt 0]]"
    by (simp add: features_except_def ex_frame_def)
  have y: "column_named ''Condition'' ex_frame = ex_labels"
    by (simp add: column_named_def ex_frame_def ex_labels_def)
  note t = run_LDA_features_and_labels [OF h, of ex_fit]
  from t have "run_LDA ex_fit ex_frame = ([], Inr (ex_X2, ex_labels, EVArr [0.75, 0.25]))"
    by (simp add: y fit_and_report_Inr ex_fit_def)
  with h X y show ?thesis by (simp add: ex_labels_def ex_X2_def)
qed

section \<open>Assembling the input of \<^verbatim>\<open>run_LDA\<close>\<close>

lemma bind_io_lift:
  "bind_io (lift_io r) f = (case r of Inl e \<Rightarrow> ([], Inl e) | Inr a \<Rightarrow> f a)"
  by (cases r) simp_all

lemma lda_input_assemble:
  "lda_input env a imap idx =
     (case input_matrix env a of
        Inl e \<Rightarrow> ([], Inl e)
      | Inr m \<Rightarrow> assemble (sample_key env a) a imap idx m)"
proof (cases "truthy (dist_matrix_file a)")
  case True
  then have k: "sample_key env a = (\<lambda>sid. Str (py_str env sid))"
    by (simp add: sample_key_def fun_eq_iff)
  from True show ?thesis
    unfolding k
    by (simp add: lda_input_def dist_matrix_input_def input_matrix_def assemble_def
          raise_io_def split: sum.splits py_error.splits)
next
  case False
  then have k: "sample_key env a = (\<lambda>sid. sid)"
    by (simp add: sample_key_def fun_eq_iff)
  from False show ?thesis
    unfolding k
    by (simp add: lda_input_def otu_table_input_def input_matrix_def assemble_def
          raise_io_def bind_io_lift split: sum.splits py_error.splits)
qed

lemma group_of_entry:
  "group_of imap idx k =
     (case metadata_entry imap k of
        None \<Rightarrow> Inl (KeyError k)
      | Some v \<Rightarrow> (if idx < length v then Inr (Str (v ! idx)) else Inl IndexError))"
  by (simp add: group_of_def metadata_entry_def getitem_def split: cell.splits option.splits)

lemma assemble_ok:
  assumes "map_err (\<lambda>sid. group_of imap idx (key sid)) (map fst (frows m)) = Inr cond"
    and "''Condition'' \<notin> set (columns m)"
  shows "assemble key a imap idx m =
           ((if truthy (save_lda_input a)
             then [ToCsv (the (save_lda_input a)) (prepend_column ''Condition'' cond m)] else []),
            Inr (prepend_column ''Condition'' cond m,
                 if annotate_points a then Some (map key (map fst (frows m))) else None))"
proof -
  from assms(1) have len: "length cond = length (frows m)"
    by (auto dest!: map_err_Inr list_all2_lengthD)
  with assms(2) have ins: "insert0 ''Condition'' cond m = Inr (prepend_column ''Condition'' cond m)"
    by (simp add: insert0_ok)
  show ?thesis
    by (simp add: assemble_def assms(1) ins index_prepend_column [OF len] emit_def return_io_def)
qed

lemma assemble_Inr:
  assumes "assemble key a imap idx m = (es, Inr (df, sids))"
  shows "\<exists>cond. map_err (\<lambda>sid. group_of imap idx (key sid)) (map fst (frows m)) = Inr cond
           \<and> ''Condition'' \<notin> set (columns m) \<and> df = prepend_column ''Condition'' cond m"
proof -
  from assms obtain cond where
    c: "map_err (\<lambda>sid. group_of imap idx (key sid)) (map fst (frows m)) = Inr cond"
    by (cases "map_err (\<lambda>sid. group_of imap idx (key sid)) (map fst (frows m))")
       (simp_all add: assemble_def)
  with assms obtain df' where i: "insert0 ''Condition'' cond m = Inr df'"
    by (cases "insert0 ''Condition'' cond m") (simp_all add: assemble_def)
  then have n: "''Condition'' \<notin> set (columns m)"
    by (simp add: insert0_Inr)
  from assms assemble_ok [OF c n, of a] have "df = prepend_column ''Condition'' cond m"
    by simp
  with c n show ?thesis by blast
qed

section \<open>The distance-matrix path\<close>

lemma wf_prepend_column:
  assumes "wf_frame m" and "length vs = length (frows m)"
  shows "wf_frame (prepend_column name vs m)"
  using assms
  by (auto simp: wf_frame_def prepend_column_def list_all_iff dest!: set_zip_rightD)

lemma prepend_column_parts:
  assumes "wf_frame m" and "length vs = length (frows m)" and "name \<notin> set (columns m)"
  shows "lda_X (prepend_column name vs m) = map snd (frows m)"
    and "features_except name (prepend_column name vs m) = map snd (frows m)"
    and "column_named name (prepend_column name vs m) = vs"
    and "df_getitem (prepend_column name vs m) name = Inr vs"
proof -
  let ?df = "prepend_column name vs m"
  have c: "columns ?df = name # columns m" by (simp add: prepend_column_def)
  have w: "wf_frame ?df" using assms(1,2) by (rule wf_prepend_column)
  show "lda_X ?df = map snd (frows m)"
    by (simp add: lda_X_tl [OF c w] tl_prepend_column [OF assms(2)])
  show "features_except name ?df = map snd (frows m)"
    by (simp add: features_except_tl [OF c assms(3) w] tl_prepend_column [OF assms(2)])
  show "column_named name ?df = vs"
    by (simp add: column_named_hd [OF c w] hd_prepend_column [OF assms(2)])
  show "df_getitem ?df name = Inr vs"
    by (simp add: df_getitem_hd [OF c assms(3) w] hd_prepend_column [OF assms(2)])
qed

lemma map_err_length: "map_err f xs = Inr ys \<Longrightarrow> length ys = length xs"
  by (auto dest!: map_err_Inr list_all2_lengthD)

lemma input_matrix_dm:
  assumes "dist_matrix_file a = Some p" and "p \<noteq> []" and "read_csv env p = Inr dm"
  shows "input_matrix env a = Inr dm" and "sample_key env a = (\<lambda>sid. Str (py_str env sid))"
  using assms by (simp_all add: input_matrix_def sample_key_def truthy_def fun_eq_iff)

lemma input_matrix_otu:
  assumes "\<not> truthy (dist_matrix_file a)" and "load_table env (otu_table a) = Inr b"
    and "relative_abundance env b = Inr r1" and "arcsine_sqrt_transform env r1 = Inr r2"
  shows "input_matrix env a = DataFrame_T env r2" and "sample_key env a = (\<lambda>sid. sid)"
  using assms by (simp_all add: input_matrix_def sample_key_def fun_eq_iff)

lemma py_str_transforms:
  "py_str (env\<lparr>relative_abundance := f, arcsine_sqrt_transform := g\<rparr>) = py_str env"
  by (rule ext) (simp add: py_str_def split: cell.splits)

lemma lda_input_Inr:
  assumes "input_matrix env a = Inr m" and "lda_input env a imap idx = (es, Inr (df, sids))"
  shows "\<exists>cond. map_err (\<lambda>sid. group_of imap idx (sample_key env a sid)) (map fst (frows m)) = Inr cond
           \<and> length cond = length (frows m)
           \<and> ''Condition'' \<notin> set (columns m) \<and> df = prepend_column ''Condition'' cond m"
proof -
  from assms have "assemble (sample_key env a) a imap idx m = (es, Inr (df, sids))"
    by (simp add: lda_input_assemble)
  from assemble_Inr [OF this] obtain cond where
    c: "map_err (\<lambda>sid. group_of imap idx (sample_key env a sid)) (map fst (frows m)) = Inr cond"
       "''Condition'' \<notin> set (columns m)" "df = prepend_column ''Condition'' cond m"
    by blast
  from c(1) have "length cond = length (frows m)"
    by (simp add: map_err_length)
  with c show ?thesis by blast
qed

text \<open>
  C3. In the distance-matrix path the frame handed to \<^verbatim>\<open>run_LDA\<close> is the frame read
  from the distance-matrix file with the \<^verbatim>\<open>Condition\<close> column put in front: the same
  index, and as feature block (all columns except \<^verbatim>\<open>Condition\<close>, which is what
  \<^verbatim>\<open>run_LDA\<close> fits on) the rows of the file unchanged. The result of the path does not
  depend on \<^verbatim>\<open>relative_abundance\<close> or \<^verbatim>\<open>arcsine_sqrt_transform\<close>. In the
  feature-table path the feature block is the rows of the frame built from the
  transformed relative abundances.
\<close>

theorem distance_matrix_rows_unchanged:
  assumes "dist_matrix_file a = Some p" and "p \<noteq> []" and "read_csv env p = Inr dm"
    and "wf_frame dm"
  shows "lda_input (env\<lparr>relative_abundance := f, arcsine_sqrt_transform := g\<rparr>) a imap idx
           = lda_input env a imap idx
       \<and> (\<forall>es df sids. lda_input env a imap idx = (es, Inr (df, sids)) \<longrightarrow>
             columns df = ''Condition'' # columns dm
           \<and> map fst (frows df) = map fst (frows dm)
           \<and> features_except ''Condition'' df = map snd (frows dm)
           \<and> lda_X df = map snd (frows dm)
           \<and> run_LDA fit df
               = fit_and_report fit (map snd (frows dm)) (column_named ''Condition'' df))
       \<and> (\<forall>cond. ''Condition'' \<notin> set (columns dm)
             \<and> map_err (\<lambda>sid. group_of imap idx (Str (py_str env sid))) (map fst (frows dm))
                 = Inr cond
             \<longrightarrow> (\<exists>es sids. lda_input env a imap idx
                     = (es, Inr (prepend_column ''Condition'' cond dm, sids))))
       \<and> (\<forall>b r1 r2 m es df sids.
             load_table env (otu_table a) = Inr b \<and> relative_abundance env b = Inr r1
             \<and> arcsine_sqrt_transform env r1 = Inr r2 \<and> DataFrame_T env r2 = Inr m \<and> wf_frame m
             \<and> lda_input env (a\<lparr>dist_matrix_file := None\<rparr>) imap idx = (es, Inr (df, sids))
             \<longrightarrow> lda_X df = map snd (frows m))"
proof (intro conjI allI impI)
  from assms(1,2,3)
  show "lda_input (env\<lparr>relative_abundance := f, arcsine_sqrt_transform := g\<rparr>) a imap idx
           = lda_input env a imap idx"
    by (simp add: lda_input_def dist_matrix_input_def py_str_transforms truthy_def
          cong: if_cong)
next
  fix es df sids
  assume r: "lda_input env a imap idx = (es, Inr (df, sids))"
  from lda_input_Inr [OF input_matrix_dm(1) [OF assms(1,2,3)] r]
  obtain cond where c: "length cond = length (frows dm)" "''Condition'' \<notin> set (columns dm)"
      "df = prepend_column ''Condition'' cond dm"
    by blast
  note parts = prepend_column_parts [OF assms(4) c(1,2)]
  show "columns df = ''Condition'' # columns dm"
    by (simp add: c(3) prepend_column_def)
  show "map fst (frows df) = map fst (frows dm)"
    by (simp add: c(3) index_prepend_column [OF c(1)])
  show "features_except ''Condition'' df = map snd (frows dm)"
    by (simp add: c(3) parts)
  show "lda_X df = map snd (frows dm)"
    by (simp add: c(3) parts)
  show "run_LDA fit df = fit_and_report fit (map snd (frows dm)) (column_named ''Condition'' df)"
    by (simp add: run_LDA_def c(3) parts)
next
  fix cond
  assume h: "''Condition'' \<notin> set (columns dm)
             \<and> map_err (\<lambda>sid. group_of imap idx (Str (py_str env sid))) (map fst (frows dm))
                 = Inr cond"
  then have "assemble (\<lambda>sid. Str (py_str env sid)) a imap idx dm =
           ((if truthy (save_lda_input a)
             then [ToCsv (the (save_lda_input a)) (prepend_column ''Condition'' cond dm)] else []),
            Inr (prepend_column ''Condition'' cond dm,
                 if annotate_points a then Some (map (\<lambda>sid. Str (py_str env sid)) (map fst (frows dm))) else None))"
    by (intro assemble_ok) simp_all
  then show "\<exists>es sids. lda_input env a imap idx
                     = (es, Inr (prepend_column ''Condition'' cond dm, sids))"
    by (simp add: lda_input_assemble input_matrix_dm [OF assms(1,2,3)])
next
  fix b r1 r2 m es df sids
  assume h: "load_table env (otu_table a) = Inr b \<and> relative_abundance env b = Inr r1
             \<and> arcsine_sqrt_transform env r1 = Inr r2 \<and> DataFrame_T env r2 = Inr m \<and> wf_frame m
             \<and> lda_input env (a\<lparr>dist_matrix_file := None\<rparr>) imap idx = (es, Inr (df, sids))"
  let ?a = "a\<lparr>dist_matrix_file := None\<rparr>"
  have "input_matrix env ?a = DataFrame_T env r2"
    using h by (intro input_matrix_otu(1) [of ?a env b r1]) (simp_all add: truthy_def)
  with h have "input_matrix env ?a = Inr m" by simp
  from lda_input_Inr [OF this] h
  obtain cond where c: "length cond = length (frows m)" "''Condition'' \<notin> set (columns m)"
      "df = prepend_column ''Condition'' cond m"
    by blast
  from h have "wf_frame m" by simp
  from prepend_column_parts(1) [OF this c(1,2)] c(3) show "lda_X df = map snd (frows m)"
    by simp
qed


lemma ex_dm_input:
  "lda_input ex_env ex_args ex_imap 1 = ([], Inr (ex_frame, None))"
  by (simp add: lda_input_def dist_matrix_input_def ex_env_def ex_args_def truthy_def ex_dm_def
        group_of_def py_str_def ex_imap_def getitem_def insert0_def ex_frame_def return_io_def)

lemma ex_otu_input:
  "lda_input ex_env (ex_args\<lparr>dist_matrix_file := None\<rparr>) ex_imap 1
     = ([], Inr (ex_otu_frame, None))"
  by (simp add: lda_input_def otu_table_input_def ex_env_def ex_args_def truthy_def ex_otu_def
        group_of_def ex_imap_def getitem_def insert0_def ex_otu_frame_def return_io_def)

lemma ex_condition:
  "map_err (\<lambda>sid. group_of ex_imap 1 (Str (py_str ex_env sid))) (map fst (frows ex_dm))
     = Inr ex_labels"
  by (simp add: ex_dm_def group_of_def py_str_def ex_imap_def getitem_def ex_labels_def)

theorem distance_matrix_rows_unchanged_witness:
  "dist_matrix_file ex_args = Some ''dm.txt'' \<and> ''dm.txt'' \<noteq> []
   \<and> read_csv ex_env ''dm.txt'' = Inr ex_dm \<and> wf_frame ex_dm
   \<and> ''Condition'' \<notin> set (columns ex_dm)
   \<and> map_err (\<lambda>sid. group_of ex_imap 1 (Str (py_str ex_env sid))) (map fst (frows ex_dm))
       = Inr ex_labels
   \<and> lda_input ex_env ex_args ex_imap 1 = ([], Inr (ex_frame, None))
   \<and> columns ex_frame = ''Condition'' # columns ex_dm
   \<and> lda_X ex_frame = map snd (frows ex_dm)
   \<and> load_table ex_env (otu_table ex_args) = Inr () \<and> relative_abundance ex_env () = Inr ()
   \<and> arcsine_sqrt_transform ex_env () = Inr () \<and> DataFrame_T ex_env () = Inr ex_otu
   \<and> wf_frame ex_otu
   \<and> lda_input ex_env (ex_args\<lparr>dist_matrix_file := None\<rparr>) ex_imap 1
       = ([], Inr (ex_otu_frame, None))
   \<and> lda_X ex_otu_frame = map snd (frows ex_otu)"
proof -
  have h: "dist_matrix_file ex_args = Some ''dm.txt''" "''dm.txt'' \<noteq> []"
    "read_csv ex_env ''dm.txt'' = Inr ex_dm" "wf_frame ex_dm"
    by (simp_all add: ex_args_def ex_env_def ex_dm_def wf_frame_def)
  have n: "''Condition'' \<notin> set (columns ex_dm)"
    by (simp add: ex_dm_def)
  have o: "load_table ex_env (otu_table ex_args) = Inr ()" "relative_abundance ex_env () = Inr ()"
    "arcsine_sqrt_transform ex_env () = Inr ()" "DataFrame_T ex_env () = Inr ex_otu"
    "wf_frame ex_otu"
    by (simp_all add: ex_env_def ex_otu_def wf_frame_def)
  note t = distance_matrix_rows_unchanged [OF h, of "relative_abundance ex_env"
      "arcsine_sqrt_transform ex_env" ex_imap 1 ex_fit]
  from t ex_dm_input have a: "columns ex_frame = ''Condition'' # columns ex_dm"
    "lda_X ex_frame = map snd (frows ex_dm)"
    by blast+
  from t o ex_otu_input have b: "lda_X ex_otu_frame = map snd (frows ex_otu)"
    by blast
  from h n ex_condition ex_dm_input a o ex_otu_input b show ?thesis by blast
qed

section \<open>Group labels come from the mapping file\<close>

text \<open>
  C7. In both input paths the label of every sample of the input matrix is the value
  at the group column index of the sample's mapping-file entry, and when a sample of
  the matrix has no entry the assembly raises the error of a sample's lookup, before
  any frame is built or written. When every sample has an entry that reaches the
  group column and the matrix has no \<^verbatim>\<open>Condition\<close> column yet, the assembly succeeds.
\<close>

theorem group_lookup_or_failure:
  assumes "input_matrix env a = Inr m"
  shows "((\<exists>sid\<in>set (map fst (frows m)). metadata_entry imap (sample_key env a sid) = None)
            \<longrightarrow> (\<exists>e. lda_input env a imap idx = ([], Inl e)
                   \<and> (\<exists>sid\<in>set (map fst (frows m)).
                         group_of imap idx (sample_key env a sid) = Inl e)))
       \<and> (\<forall>es df sids. lda_input env a imap idx = (es, Inr (df, sids)) \<longrightarrow>
            map fst (frows df) = map fst (frows m)
            \<and> list_all (\<lambda>row. \<exists>v. metadata_entry imap (sample_key env a (fst row)) = Some v
                                 \<and> idx < length v \<and> hd (snd row) = Str (v ! idx)) (frows df))
       \<and> ((\<forall>sid\<in>set (map fst (frows m)).
              \<exists>v. metadata_entry imap (sample_key env a sid) = Some v \<and> idx < length v)
            \<and> ''Condition'' \<notin> set (columns m)
            \<longrightarrow> (\<exists>es df sids. lda_input env a imap idx = (es, Inr (df, sids))))"
proof (intro conjI allI impI)
  let ?f = "\<lambda>sid. group_of imap idx (sample_key env a sid)"
  assume "\<exists>sid\<in>set (map fst (frows m)). metadata_entry imap (sample_key env a sid) = None"
  then obtain sid where s0: "sid \<in> set (map fst (frows m))"
      "metadata_entry imap (sample_key env a sid) = None"
    by blast
  then have sid: "sid \<in> set (map fst (frows m))"
      "?f sid = Inl (KeyError (sample_key env a sid))"
    by (simp_all add: group_of_entry)
  from map_err_fails [of sid "map fst (frows m)" ?f, OF sid]
  obtain e where e: "map_err ?f (map fst (frows m)) = Inl e"
    by blast
  then have "lda_input env a imap idx = ([], Inl e)"
    by (simp add: lda_input_assemble assms assemble_def)
  moreover from e have "\<exists>sid\<in>set (map fst (frows m)). ?f sid = Inl e"
    by (rule map_err_Inl)
  ultimately show "\<exists>e. lda_input env a imap idx = ([], Inl e)
                   \<and> (\<exists>sid\<in>set (map fst (frows m)).
                         group_of imap idx (sample_key env a sid) = Inl e)"
    by blast
next
  fix es df sids
  assume r: "lda_input env a imap idx = (es, Inr (df, sids))"
  let ?f = "\<lambda>sid. group_of imap idx (sample_key env a sid)"
  from lda_input_Inr [OF assms r] obtain cond where
    c: "map_err ?f (map fst (frows m)) = Inr cond" "length cond = length (frows m)"
       "df = prepend_column ''Condition'' cond m"
    by blast
  show "map fst (frows df) = map fst (frows m)"
    by (simp add: c(3) index_prepend_column [OF c(2)])
  from map_err_Inr [OF c(1)] have l: "\<forall>k<length (frows m). ?f (fst (frows m ! k)) = Inr (cond ! k)"
    by (simp add: list_all2_conv_all_nth)
  show "list_all (\<lambda>row. \<exists>v. metadata_entry imap (sample_key env a (fst row)) = Some v
                                 \<and> idx < length v \<and> hd (snd row) = Str (v ! idx)) (frows df)"
    unfolding list_all_length
  proof (intro allI impI)
    fix k assume "k < length (frows df)"
    with c(2,3) have k: "k < length (frows m)" by (simp add: prepend_column_def)
    with c(2,3) have row: "frows df ! k = (fst (frows m ! k), cond ! k # snd (frows m ! k))"
      by (simp add: prepend_column_def)
    from l k have "?f (fst (frows m ! k)) = Inr (cond ! k)" by simp
    then show "\<exists>v. metadata_entry imap (sample_key env a (fst (frows df ! k))) = Some v
                 \<and> idx < length v \<and> hd (snd (frows df ! k)) = Str (v ! idx)"
      unfolding row by (auto simp: group_of_entry split: option.splits if_splits)
  qed
next
  let ?f = "\<lambda>sid. group_of imap idx (sample_key env a sid)"
  let ?g = "\<lambda>sid. Str (the (metadata_entry imap (sample_key env a sid)) ! idx)"
  assume h: "(\<forall>sid\<in>set (map fst (frows m)).
              \<exists>v. metadata_entry imap (sample_key env a sid) = Some v \<and> idx < length v)
            \<and> ''Condition'' \<notin> set (columns m)"
  have "map_err ?f (map fst (frows m)) = Inr (map ?g (map fst (frows m)))"
  proof (rule map_err_all_Inr)
    fix sid assume "sid \<in> set (map fst (frows m))"
    with h obtain v where "metadata_entry imap (sample_key env a sid) = Some v" "idx < length v"
      by blast
    then show "?f sid = Inr (?g sid)" by (simp add: group_of_entry)
  qed
  from assemble_ok [OF this, of a] h
  show "\<exists>es df sids. lda_input env a imap idx = (es, Inr (df, sids))"
    by (simp add: lda_input_assemble assms)
qed


theorem group_lookup_or_failure_witness:
  "input_matrix ex_env ex_args = Inr ex_dm
   \<and> list_ex (\<lambda>sid. metadata_entry ex_imap_short (sample_key ex_env ex_args sid) = None)
         (map fst (frows ex_dm))
   \<and> lda_input ex_env ex_args ex_imap_short 1 = ([], Inl (KeyError (Str ''s3'')))
   \<and> list_all (\<lambda>sid. \<exists>v. metadata_entry ex_imap (sample_key ex_env ex_args sid) = Some v
                          \<and> 1 < length v) (map fst (frows ex_dm))
   \<and> ''Condition'' \<notin> set (columns ex_dm)
   \<and> lda_input ex_env ex_args ex_imap 1 = ([], Inr (ex_frame, None))
   \<and> list_all (\<lambda>row. \<exists>v. metadata_entry ex_imap (sample_key ex_env ex_args (fst row)) = Some v
                        \<and> 1 < length v \<and> hd (snd row) = Str (v ! 1)) (frows ex_frame)
   \<and> input_matrix ex_env (ex_args\<lparr>dist_matrix_file := None\<rparr>) = Inr ex_otu
   \<and> (\<exists>e. lda_input ex_env (ex_args\<lparr>dist_matrix_file := None\<rparr>) ex_imap_short 1 = ([], Inl e))
   \<and> lda_input ex_env (ex_args\<lparr>dist_matrix_file := None\<rparr>) ex_imap 1
       = ([], Inr (ex_otu_frame, None))
   \<and> map fst (frows ex_otu_frame) = map fst (frows ex_otu)"
proof -
  let ?b = "ex_args\<lparr>dist_matrix_file := None\<rparr>"
  have m: "input_matrix ex_env ex_args = Inr ex_dm" "input_matrix ex_env ?b = Inr ex_otu"
    by (simp_all add: input_matrix_def ex_env_def ex_args_def truthy_def)
  have k: "sample_key ex_env ex_args = (\<lambda>sid. Str (py_str ex_env sid))"
    "sample_key ex_env ?b = (\<lambda>sid. sid)"
    by (simp_all add: sample_key_def ex_args_def truthy_def fun_eq_iff)
  have miss: "\<exists>sid\<in>set (map fst (frows ex_dm)).
         metadata_entry ex_imap_short (sample_key ex_env ex_args sid) = None"
    "\<exists>sid\<in>set (map fst (frows ex_otu)).
         metadata_entry ex_imap_short (sample_key ex_env ?b sid) = None"
    unfolding k by (simp_all add: ex_dm_def ex_otu_def metadata_entry_def py_str_def ex_imap_short_def)
  have all: "\<forall>sid\<in>set (map fst (frows ex_dm)).
         \<exists>v. metadata_entry ex_imap (sample_key ex_env ex_args sid) = Some v \<and> 1 < length v"
    unfolding k by (simp add: ex_dm_def metadata_entry_def py_str_def ex_imap_def)
  have n: "''Condition'' \<notin> set (columns ex_dm)"
    by (simp add: ex_dm_def)
  have f: "lda_input ex_env ex_args ex_imap_short 1 = ([], Inl (KeyError (Str ''s3'')))"
    by (simp add: lda_input_def dist_matrix_input_def ex_env_def ex_args_def truthy_def ex_dm_def
          group_of_def py_str_def ex_imap_short_def getitem_def)
  note t1 = group_lookup_or_failure [OF m(1), of ex_imap 1]
  note t2 = group_lookup_or_failure [OF m(2), of ex_imap_short 1]
  note t3 = group_lookup_or_failure [OF m(2), of ex_imap 1]
  from t1 ex_dm_input
  have a: "list_all (\<lambda>row. \<exists>v. metadata_entry ex_imap (sample_key ex_env ex_args (fst row)) = Some v
                        \<and> 1 < length v \<and> hd (snd row) = Str (v ! 1)) (frows ex_frame)"
    by blast
  from t2 miss(2) have b: "\<exists>e. lda_input ex_env ?b ex_imap_short 1 = ([], Inl e)"
    by blast
  from t3 ex_otu_input have c: "map fst (frows ex_otu_frame) = map fst (frows ex_otu)"
    by blast
  from m miss(1) f all n ex_dm_input a b ex_otu_input c show ?thesis
    unfolding list_all_iff list_ex_iff by blast
qed

section \<open>Saving the input of \<^verbatim>\<open>run_LDA\<close>\<close>

lemma assemble_save:
  assumes "p \<noteq> []"
  shows "fst (assemble key (a\<lparr>save_lda_input := None\<rparr>) imap idx m) = []"
    and "assemble key (a\<lparr>save_lda_input := Some p\<rparr>) imap idx m
           = (case snd (assemble key (a\<lparr>save_lda_input := None\<rparr>) imap idx m) of
                Inl e \<Rightarrow> ([], Inl e)
              | Inr (df, sids) \<Rightarrow> ([ToCsv p df], Inr (df, sids)))"
proof -
  let ?r = "map_err (\<lambda>sid. group_of imap idx (key sid)) (map fst (frows m))"
  show "fst (assemble key (a\<lparr>save_lda_input := None\<rparr>) imap idx m) = []"
    by (cases ?r; cases "insert0 ''Condition'' (projr ?r) m")
       (simp_all add: assemble_def truthy_def)
  show "assemble key (a\<lparr>save_lda_input := Some p\<rparr>) imap idx m
           = (case snd (assemble key (a\<lparr>save_lda_input := None\<rparr>) imap idx m) of
                Inl e \<Rightarrow> ([], Inl e)
              | Inr (df, sids) \<Rightarrow> ([ToCsv p df], Inr (df, sids)))"
    using assms
    by (cases ?r; cases "insert0 ''Condition'' (projr ?r) m")
       (simp_all add: assemble_def truthy_def emit_def)
qed

lemma lda_input_save:
  assumes "p \<noteq> []"
  shows "fst (lda_input env (a\<lparr>save_lda_input := None\<rparr>) imap idx) = []"
    and "lda_input env (a\<lparr>save_lda_input := Some p\<rparr>) imap idx
           = (case snd (lda_input env (a\<lparr>save_lda_input := None\<rparr>) imap idx) of
                Inl e \<Rightarrow> ([], Inl e)
              | Inr (df, sids) \<Rightarrow> ([ToCsv p df], Inr (df, sids)))"
proof -
  have i: "input_matrix env (a\<lparr>save_lda_input := Some p\<rparr>) = input_matrix env a"
    "input_matrix env (a\<lparr>save_lda_input := None\<rparr>) = input_matrix env a"
    by (simp_all add: input_matrix_def)
  have k: "sample_key env (a\<lparr>save_lda_input := Some p\<rparr>) = sample_key env a"
    "sample_key env (a\<lparr>save_lda_input := None\<rparr>) = sample_key env a"
    by (simp_all add: sample_key_def fun_eq_iff)
  show "fst (lda_input env (a\<lparr>save_lda_input := None\<rparr>) imap idx) = []"
    by (cases "input_matrix env a")
       (simp_all add: lda_input_assemble i k assemble_save(1) [OF assms])
  show "lda_input env (a\<lparr>save_lda_input := Some p\<rparr>) imap idx
           = (case snd (lda_input env (a\<lparr>save_lda_input := None\<rparr>) imap idx) of
                Inl e \<Rightarrow> ([], Inl e)
              | Inr (df, sids) \<Rightarrow> ([ToCsv p df], Inr (df, sids)))"
    by (cases "input_matrix env a")
       (simp_all add: lda_input_assemble i k assemble_save(2) [OF assms])
qed

section \<open>The export is a side channel\<close>

lemma bind_io_prefix:
  "bind_io (pre @ es, r) f = (pre @ fst (bind_io (es, r) f), snd (bind_io (es, r) f))"
  by (cases r) simp_all

lemma plot_inputs_save:
  assumes "p \<noteq> []"
  shows "\<exists>pre. plot_inputs env (a\<lparr>save_lda_input := Some p\<rparr>)
                 = (pre @ fst (plot_inputs env (a\<lparr>save_lda_input := None\<rparr>)),
                    snd (plot_inputs env (a\<lparr>save_lda_input := None\<rparr>)))
               \<and> (pre = [] \<or> (\<exists>df. pre = [ToCsv p df]))"
proof -
  let ?a1 = "a\<lparr>save_lda_input := Some p\<rparr>" and ?a0 = "a\<lparr>save_lda_input := None\<rparr>"
  have rm: "read_mapping env ?a1 = read_mapping env ?a0"
    by (simp add: read_mapping_def cong: sum.case_cong prod.case_cong)
  have gc: "obtain_group_colors env ?a1 = obtain_group_colors env ?a0"
    by (simp add: obtain_group_colors_def fun_eq_iff cong: option.case_cong)
  show ?thesis
  proof (cases "read_mapping env ?a0")
    case (Inl e)
    then show ?thesis by (simp add: plot_inputs_def rm)
  next
    case (Inr t)
    obtain header imap idx where t: "t = (header, imap, idx)" by (cases t)
    show ?thesis
    proof (cases "obtain_group_colors env ?a0 header imap idx")
      case (Inl e)
      with Inr t show ?thesis by (simp add: plot_inputs_def rm gc)
    next
      case cc: (Inr cc)
      note s = lda_input_save [OF assms, of env a imap idx]
      show ?thesis
      proof (cases "snd (lda_input env ?a0 imap idx)")
        case (Inl e)
        with s have "lda_input env ?a1 imap idx = ([], Inl e)" "lda_input env ?a0 imap idx = ([], Inl e)"
          by (simp_all add: prod_eq_iff)
        with Inr t cc show ?thesis by (simp add: plot_inputs_def rm gc)
      next
        case r: (Inr v)
        obtain df sids where v: "v = (df, sids)" by (cases v)
        from s r v have l: "lda_input env ?a1 imap idx = ([ToCsv p df], Inr (df, sids))"
          "lda_input env ?a0 imap idx = ([], Inr (df, sids))"
          by (simp_all add: prod_eq_iff)
        have "plot_inputs env ?a1
                 = ([ToCsv p df] @ fst (plot_inputs env ?a0), snd (plot_inputs env ?a0))"
          using Inr t cc l by (simp add: plot_inputs_def rm gc)
        then show ?thesis by blast
      qed
    qed
  qed
qed

lemma main_save:
  assumes "p \<noteq> []"
  shows "\<exists>pre. main env (a\<lparr>save_lda_input := Some p\<rparr>)
                 = (pre @ fst (main env (a\<lparr>save_lda_input := None\<rparr>)),
                    snd (main env (a\<lparr>save_lda_input := None\<rparr>)))
               \<and> (pre = [] \<or> (\<exists>df. pre = [ToCsv p df]))"
proof -
  let ?a1 = "a\<lparr>save_lda_input := Some p\<rparr>" and ?a0 = "a\<lparr>save_lda_input := None\<rparr>"
  from plot_inputs_save [OF assms, of env a] obtain pre where
    pre: "plot_inputs env ?a1 = (pre @ fst (plot_inputs env ?a0), snd (plot_inputs env ?a0))"
         "pre = [] \<or> (\<exists>df. pre = [ToCsv p df])"
    by blast
  have "main env ?a1 = (pre @ fst (main env ?a0), snd (main env ?a0))"
    unfolding main_def pre(1) bind_io_prefix by (simp cong: if_cong prod.case_cong)
  with pre(2) show ?thesis by blast
qed


lemma ex_read_mapping: "read_mapping ex_env a = Inr (ex_header, ex_imap, 1)"
  if "group_by a = ''Group''"
  using that by (simp add: read_mapping_def ex_env_def ex_header_def)

lemma ex_group_colors:
  "obtain_group_colors ex_env a ex_header ex_imap 1 = Inr ex_auto_colors" if "colors a = None"
  using that
  by (simp add: obtain_group_colors_def group_values_def ex_imap_def getitem_def ex_env_def
        cycle_colors_def Set3_12_def ex_auto_colors_def upt_rec)

lemma ex_run_LDA:
  "run_LDA (fit_transform ex_env) ex_frame = ([], Inr (ex_X2, ex_labels, EVArr [0.75, 0.25]))"
  by (simp add: run_LDA_def df_getitem_def ex_frame_def getitem_def upt_rec
        fit_and_report_def ex_env_def ex_fit_def ex_labels_def return_io_def)

lemma ex_plot_inputs:
  "plot_inputs ex_env ex_args
     = ([], Inr (ex_X2, ex_labels, EVArr [0.75, 0.25], ex_auto_colors, None))"
proof -
  have "group_by ex_args = ''Group''" "colors ex_args = None"
    by (simp_all add: ex_args_def)
  then show ?thesis
    by (simp add: plot_inputs_def ex_read_mapping ex_group_colors [unfolded One_nat_def]
          ex_dm_input [unfolded One_nat_def] ex_run_LDA return_io_def)
qed

text \<open>
  C8. With \<^verbatim>\<open>--save_lda_input\<close> given a path, the frame handed to \<^verbatim>\<open>run_LDA\<close> is
  written to that path: its first column is \<^verbatim>\<open>Condition\<close> and it has one row per
  sample of the input matrix. Nothing else changes: what is passed to \<^verbatim>\<open>plot_LDA\<close>,
  and how \<^verbatim>\<open>main\<close> ends, are the same with and without the option, and the events of
  \<^verbatim>\<open>main\<close> are those without the option after the one write. A failed assembly
  writes nothing.
\<close>

theorem save_lda_input_side_channel:
  assumes "p \<noteq> []"
  shows "snd (plot_inputs env (a\<lparr>save_lda_input := Some p\<rparr>))
           = snd (plot_inputs env (a\<lparr>save_lda_input := None\<rparr>))
       \<and> snd (main env (a\<lparr>save_lda_input := Some p\<rparr>))
           = snd (main env (a\<lparr>save_lda_input := None\<rparr>))
       \<and> (\<exists>pre. fst (main env (a\<lparr>save_lda_input := Some p\<rparr>))
                   = pre @ fst (main env (a\<lparr>save_lda_input := None\<rparr>))
                 \<and> (pre = [] \<or> (\<exists>df. pre = [ToCsv p df])))
       \<and> fst (lda_input env (a\<lparr>save_lda_input := None\<rparr>) imap idx) = []
       \<and> snd (lda_input env (a\<lparr>save_lda_input := Some p\<rparr>) imap idx)
           = snd (lda_input env (a\<lparr>save_lda_input := None\<rparr>) imap idx)
       \<and> (\<forall>e. snd (lda_input env (a\<lparr>save_lda_input := Some p\<rparr>) imap idx) = Inl e
             \<longrightarrow> fst (lda_input env (a\<lparr>save_lda_input := Some p\<rparr>) imap idx) = [])
       \<and> (\<forall>df sids. snd (lda_input env (a\<lparr>save_lda_input := Some p\<rparr>) imap idx) = Inr (df, sids)
             \<longrightarrow> fst (lda_input env (a\<lparr>save_lda_input := Some p\<rparr>) imap idx) = [ToCsv p df]
               \<and> hd (columns df) = ''Condition''
               \<and> (\<forall>m. input_matrix env a = Inr m
                      \<longrightarrow> map fst (frows df) = map fst (frows m)
                        \<and> length (frows df) = length (frows m)))"
proof -
  let ?a1 = "a\<lparr>save_lda_input := Some p\<rparr>" and ?a0 = "a\<lparr>save_lda_input := None\<rparr>"
  note s = lda_input_save [OF assms, of env a imap idx]
  from plot_inputs_save [OF assms, of env a]
  have 1: "snd (plot_inputs env ?a1) = snd (plot_inputs env ?a0)"
    by auto
  from main_save [OF assms, of env a] obtain pre where
    pre: "main env ?a1 = (pre @ fst (main env ?a0), snd (main env ?a0))"
         "pre = [] \<or> (\<exists>df. pre = [ToCsv p df])"
    by blast
  then have 2: "snd (main env ?a1) = snd (main env ?a0)"
    and 3: "\<exists>pre. fst (main env ?a1) = pre @ fst (main env ?a0)
                 \<and> (pre = [] \<or> (\<exists>df. pre = [ToCsv p df]))"
    by auto
  have 5: "snd (lda_input env ?a1 imap idx) = snd (lda_input env ?a0 imap idx)"
    unfolding s(2) by (auto split: sum.splits)
  have 6: "fst (lda_input env ?a1 imap idx) = []"
    if "snd (lda_input env ?a1 imap idx) = Inl e" for e
    using that unfolding s(2) by (auto split: sum.splits)
  have 7: "fst (lda_input env ?a1 imap idx) = [ToCsv p df] \<and> hd (columns df) = ''Condition''
           \<and> (\<forall>m. input_matrix env a = Inr m
                  \<longrightarrow> map fst (frows df) = map fst (frows m)
                    \<and> length (frows df) = length (frows m))"
    if r: "snd (lda_input env ?a1 imap idx) = Inr (df, sids)" for df sids
  proof (intro conjI allI impI)
    from that show "fst (lda_input env ?a1 imap idx) = [ToCsv p df]"
      unfolding s(2) by (auto split: sum.splits)
    from r have l: "lda_input env ?a1 imap idx = (fst (lda_input env ?a1 imap idx), Inr (df, sids))"
      by (simp add: prod_eq_iff)
    have i: "input_matrix env ?a1 = input_matrix env a"
      by (simp add: input_matrix_def)
    from l obtain m where m: "input_matrix env ?a1 = Inr m"
      by (cases "input_matrix env ?a1") (simp_all add: lda_input_assemble)
    from lda_input_Inr [OF m l] obtain cond where
      c: "length cond = length (frows m)" "df = prepend_column ''Condition'' cond m"
      by blast
    then show "hd (columns df) = ''Condition''"
      by (simp add: prepend_column_def)
    fix m' assume "input_matrix env a = Inr m'"
    with m i have "m' = m" by simp
    with c show "map fst (frows df) = map fst (frows m')"
      by (simp add: index_prepend_column)
    then show "length (frows df) = length (frows m')"
      by (rule map_eq_imp_length_eq)
  qed
  from 1 2 3 s(1) 5 6 7 show ?thesis by blast
qed

theorem save_lda_input_side_channel_witness:
  "''lda_in.txt'' \<noteq> []
   \<and> lda_input ex_env (ex_args\<lparr>save_lda_input := Some ''lda_in.txt''\<rparr>) ex_imap 1
       = ([ToCsv ''lda_in.txt'' ex_frame], Inr (ex_frame, None))
   \<and> lda_input ex_env (ex_args\<lparr>save_lda_input := None\<rparr>) ex_imap 1 = ([], Inr (ex_frame, None))
   \<and> hd (columns ex_frame) = ''Condition''
   \<and> input_matrix ex_env ex_args = Inr ex_dm
   \<and> length (frows ex_frame) = length (frows ex_dm)
   \<and> snd (plot_inputs ex_env (ex_args\<lparr>save_lda_input := Some ''lda_in.txt''\<rparr>))
       = Inr (ex_X2, ex_labels, EVArr [0.75, 0.25], ex_auto_colors, None)
   \<and> snd (plot_inputs ex_env (ex_args\<lparr>save_lda_input := None\<rparr>))
       = Inr (ex_X2, ex_labels, EVArr [0.75, 0.25], ex_auto_colors, None)"
proof -
  have p: "''lda_in.txt'' \<noteq> []" by simp
  have e: "ex_args\<lparr>save_lda_input := None\<rparr> = ex_args" by (simp add: ex_args_def)
  have m: "input_matrix ex_env ex_args = Inr ex_dm"
    by (simp add: input_matrix_def ex_env_def ex_args_def truthy_def)
  have l1: "lda_input ex_env (ex_args\<lparr>save_lda_input := Some ''lda_in.txt''\<rparr>) ex_imap 1
       = ([ToCsv ''lda_in.txt'' ex_frame], Inr (ex_frame, None))"
    by (simp add: lda_input_def dist_matrix_input_def ex_env_def ex_args_def truthy_def ex_dm_def
        group_of_def py_str_def ex_imap_def getitem_def insert0_def ex_frame_def return_io_def
        emit_def)
  note t = save_lda_input_side_channel [OF p, of ex_env ex_args ex_imap 1]
  from t l1 m have a: "hd (columns ex_frame) = ''Condition''"
    "length (frows ex_frame) = length (frows ex_dm)"
    by auto
  from t ex_plot_inputs
  have b: "snd (plot_inputs ex_env (ex_args\<lparr>save_lda_input := Some ''lda_in.txt''\<rparr>))
       = Inr (ex_X2, ex_labels, EVArr [0.75, 0.25], ex_auto_colors, None)"
    by (simp add: e)
  from p l1 ex_dm_input a m b ex_plot_inputs show ?thesis by (simp add: e)
qed

section \<open>The colour map covers the labels\<close>

lemma cycle_colors_keys: "cycle_colors palette cats = Inr l \<Longrightarrow> map fst l = cats"
  by (auto simp: cycle_colors_def comp_def map_nth split: if_splits)

lemma cycle_colors_ok:
  "palette \<noteq> [] \<Longrightarrow>
     cycle_colors palette cats
       = Inr (map (\<lambda>i. (cats ! i, palette ! (i mod length palette))) [0..<length cats])"
  by (simp add: cycle_colors_def)

lemma group_values_Inr:
  assumes "group_values imap idx = Inr vs"
  shows "vs = map (\<lambda>kv. snd kv ! idx) imap" and "\<forall>kv\<in>set imap. idx < length (snd kv)"
proof -
  from assms have l: "list_all2 (\<lambda>kv v. getitem (snd kv) idx = Inr v) imap vs"
    unfolding group_values_def by (rule map_err_Inr)
  then have len: "length vs = length imap" by (simp add: list_all2_lengthD)
  from l have n: "\<forall>k<length imap. getitem (snd (imap ! k)) idx = Inr (vs ! k)"
    by (simp add: list_all2_conv_all_nth)
  show "vs = map (\<lambda>kv. snd kv ! idx) imap"
  proof (rule nth_equalityI)
    show "length vs = length (map (\<lambda>kv. snd kv ! idx) imap)" using len by simp
    fix k assume "k < length vs"
    with len n have "getitem (snd (imap ! k)) idx = Inr (vs ! k)" "k < length imap" by simp_all
    then show "vs ! k = map (\<lambda>kv. snd kv ! idx) imap ! k"
      by (simp add: getitem_def split: if_splits)
  qed
  show "\<forall>kv\<in>set imap. idx < length (snd kv)"
  proof
    fix kv assume "kv \<in> set imap"
    then obtain k where "k < length imap" "imap ! k = kv" by (auto simp: in_set_conv_nth)
    with n have "getitem (snd kv) idx = Inr (vs ! k)" by auto
    then show "idx < length (snd kv)" by (simp add: getitem_def split: if_splits)
  qed
qed

lemma auto_colors_keys:
  assumes "colors a = None" and "iteration_orders env"
    and "obtain_group_colors env a header imap idx = Inr cc"
  shows "\<exists>vs. group_values imap idx = Inr vs \<and> set (map fst cc) = set vs \<and> distinct (map fst cc)"
proof -
  from assms(1,3) obtain vs where vs: "group_values imap idx = Inr vs"
    by (cases "group_values imap idx") (simp_all add: obtain_group_colors_def)
  let ?cats = "set_iter env (remdups vs)"
  from assms(1,3) vs obtain l where l: "cycle_colors (hex_colors env) ?cats = Inr l"
    by (cases "cycle_colors (hex_colors env) ?cats") (simp_all add: obtain_group_colors_def)
  with assms(1,3) vs have cc: "cc = dict_iter env l"
    by (simp add: obtain_group_colors_def)
  from assms(2) have p1: "mset cc = mset l" and p2: "mset ?cats = mset (remdups vs)"
    by (simp_all add: cc iteration_orders_def)
  from p1 have "image_mset fst (mset cc) = image_mset fst (mset l)"
    by simp
  then have p3: "mset (map fst cc) = mset (map fst l)"
    by simp
  from p3 p2 cycle_colors_keys [OF l] have m: "mset (map fst cc) = mset (remdups vs)"
    by simp
  then have "set (map fst cc) = set (remdups vs)"
    by (rule mset_eq_setD)
  moreover from m have "distinct (map fst cc)"
    by (metis distinct_remdups mset_eq_imp_distinct_iff)
  ultimately show ?thesis using vs by auto
qed

lemma df_getitem_prepend:
  assumes "name \<notin> set (columns m)" and "length vs = length (frows m)"
  shows "df_getitem (prepend_column name vs m) name = Inr vs"
proof -
  let ?df = "prepend_column name vs m"
  have "map_err (\<lambda>row. getitem (snd row) 0) (frows ?df)
          = Inr (map (\<lambda>row. hd (snd row)) (frows ?df))"
    by (rule map_err_all_Inr) (auto simp: prepend_column_def getitem_def)
  then have "map_err (\<lambda>row. getitem (snd row) 0) (frows ?df) = Inr vs"
    by (simp add: hd_prepend_column [OF assms(2)])
  moreover have "columns ?df = name # columns m" by (simp add: prepend_column_def)
  ultimately show ?thesis
    using condition_positions [OF assms(1)] by (simp add: df_getitem_def del: upt_Suc)
qed

lemma condition_in_group_values:
  assumes "input_matrix env a = Inr m" and "lda_input env a imap idx = (es, Inr (df, sids))"
    and "group_values imap idx = Inr vs"
  shows "\<exists>cond. df_getitem df ''Condition'' = Inr cond \<and> list_all (\<lambda>g. g \<in> Str ` set vs) cond"
proof -
  let ?f = "\<lambda>sid. group_of imap idx (sample_key env a sid)"
  from lda_input_Inr [OF assms(1,2)] obtain cond where
    c: "map_err ?f (map fst (frows m)) = Inr cond" "length cond = length (frows m)"
       "''Condition'' \<notin> set (columns m)" "df = prepend_column ''Condition'' cond m"
    by blast
  have g: "df_getitem df ''Condition'' = Inr cond"
    unfolding c(4) using c(3,2) by (rule df_getitem_prepend)
  from map_err_Inr [OF c(1)]
  have n: "\<forall>k<length cond. ?f (fst (frows m ! k)) = Inr (cond ! k)"
    using c(2) by (simp add: list_all2_conv_all_nth)
  have "list_all (\<lambda>g. g \<in> Str ` set vs) cond"
    unfolding list_all_length
  proof (intro allI impI)
    fix k assume "k < length cond"
    with n have "?f (fst (frows m ! k)) = Inr (cond ! k)" by simp
    then obtain v where v: "metadata_entry imap (sample_key env a (fst (frows m ! k))) = Some v"
        "idx < length v" "cond ! k = Str (v ! idx)"
      by (auto simp: group_of_entry split: option.splits if_splits)
    from v(1) obtain s where "map_of imap s = Some v"
      by (auto simp: metadata_entry_def split: cell.splits)
    then have "(s, v) \<in> set imap" by (rule map_of_SomeD)
    then have "v ! idx \<in> set (map (\<lambda>kv. snd kv ! idx) imap)" by force
    with group_values_Inr(1) [OF assms(3)] v(3) show "cond ! k \<in> Str ` set vs" by simp
  qed
  with g show ?thesis by blast
qed

lemma plot_inputs_Inr:
  assumes "plot_inputs env a = (es, Inr (X, y, ev, cc, sids))"
  shows "\<exists>header imap idx m es' df.
           obtain_group_colors env a header imap idx = Inr cc
         \<and> input_matrix env a = Inr m
         \<and> lda_input env a imap idx = (es', Inr (df, sids))
         \<and> df_getitem df ''Condition'' = Inr y"
proof -
  obtain t where t: "read_mapping env a = Inr t"
    using assms by (cases "read_mapping env a") (simp_all add: plot_inputs_def)
  obtain header imap idx where ht: "t = (header, imap, idx)" by (cases t)
  obtain cc' where c: "obtain_group_colors env a header imap idx = Inr cc'"
    using assms t ht
    by (cases "obtain_group_colors env a header imap idx") (simp_all add: plot_inputs_def)
  obtain es1 r1 where l: "lda_input env a imap idx = (es1, r1)" by fastforce
  obtain v where r1: "r1 = Inr v"
    using assms t ht c l by (cases r1) (simp_all add: plot_inputs_def)
  obtain df sids' where v: "v = (df, sids')" by (cases v)
  obtain es2 r2 where r: "run_LDA (fit_transform env) df = (es2, r2)" by fastforce
  obtain w where r2: "r2 = Inr w"
    using assms t ht c l r1 v r by (cases r2) (simp_all add: plot_inputs_def)
  obtain X' y' ev' where w: "w = (X', y', ev')" by (cases w)
  from assms t ht c l r1 v r r2 w
  have e: "cc' = cc" "sids' = sids" "y' = y"
    by (simp_all add: plot_inputs_def return_io_def)
  obtain y0 where y0: "df_getitem df ''Condition'' = Inr y0"
    using r r2 by (cases "df_getitem df ''Condition''") (simp_all add: run_LDA_def)
  obtain ft where ft: "fit_transform env (lda_X df) y0 = Inr ft"
    using r r2 y0
    by (cases "fit_transform env (lda_X df) y0") (simp_all add: run_LDA_def fit_and_report_Inl)
  from r r2 w y0 ft have "y' = y0"
    by (simp add: run_LDA_def fit_and_report_Inr split: option.splits)
  obtain m where m: "input_matrix env a = Inr m"
    using l r1 by (cases "input_matrix env a") (simp_all add: lda_input_assemble)
  from c l r1 v e y0 \<open>y' = y0\<close> m show ?thesis by blast
qed


text \<open>
  C6. With no colour column, the colour map that \<^verbatim>\<open>main\<close> builds has exactly the
  distinct group values of the mapping file as keys, and its entries are the
  categories, in the order the set is iterated, paired with the 12 palette colours
  taken cyclically. Every label of the frame handed to \<^verbatim>\<open>run_LDA\<close>, and so every
  label that \<^verbatim>\<open>main\<close> passes to \<^verbatim>\<open>plot_LDA\<close>, is a key of that map.
\<close>

theorem auto_colors_cover_labels:
  assumes "colors a = None" and "iteration_orders env"
  shows "(\<forall>vs. group_values imap idx = Inr vs \<and> length (hex_colors env) = 12 \<longrightarrow>
            (\<exists>cc. obtain_group_colors env a header imap idx = Inr cc
                \<and> set (map fst cc) = set vs \<and> distinct (map fst cc)
                \<and> mset cc = mset (map (\<lambda>i. (set_iter env (remdups vs) ! i,
                                              hex_colors env ! (i mod 12)))
                                     [0..<length (remdups vs)])))
       \<and> (\<forall>cc es df sids m.
             obtain_group_colors env a header imap idx = Inr cc \<and> input_matrix env a = Inr m
             \<and> lda_input env a imap idx = (es, Inr (df, sids))
             \<longrightarrow> (\<exists>cond. df_getitem df ''Condition'' = Inr cond \<and> labels_are_keys cond cc))
       \<and> (\<forall>es X y ev cc sids. plot_inputs env a = (es, Inr (X, y, ev, cc, sids))
             \<longrightarrow> labels_are_keys y cc)"
proof (intro conjI allI impI)
  fix vs
  assume h: "group_values imap idx = Inr vs \<and> length (hex_colors env) = 12"
  let ?cats = "set_iter env (remdups vs)"
  let ?l = "map (\<lambda>i. (?cats ! i, hex_colors env ! (i mod 12))) [0..<length (remdups vs)]"
  from assms(2) have "mset ?cats = mset (remdups vs)"
    by (simp add: iteration_orders_def)
  then have len: "length ?cats = length (remdups vs)"
    by (rule mset_eq_length)
  from h have "hex_colors env \<noteq> []" by auto
  from cycle_colors_ok [OF this, of ?cats] h len
  have cy: "cycle_colors (hex_colors env) ?cats = Inr ?l"
    by simp
  with assms(1) h have o: "obtain_group_colors env a header imap idx = Inr (dict_iter env ?l)"
    by (simp add: obtain_group_colors_def)
  from auto_colors_keys [OF assms o] h
  have k: "set (map fst (dict_iter env ?l)) = set vs" "distinct (map fst (dict_iter env ?l))"
    by simp_all
  from assms(2) have "mset (dict_iter env ?l) = mset ?l"
    by (simp add: iteration_orders_def)
  with o k show "\<exists>cc. obtain_group_colors env a header imap idx = Inr cc
                \<and> set (map fst cc) = set vs \<and> distinct (map fst cc)
                \<and> mset cc = mset ?l"
    by blast
next
  fix cc es df sids m
  assume h: "obtain_group_colors env a header imap idx = Inr cc \<and> input_matrix env a = Inr m
             \<and> lda_input env a imap idx = (es, Inr (df, sids))"
  with auto_colors_keys [OF assms, of header imap idx cc] obtain vs where
    vs: "group_values imap idx = Inr vs" "set (map fst cc) = set vs"
    by blast
  from h condition_in_group_values [OF _ _ vs(1), of env a m es df sids] obtain cond where
    "df_getitem df ''Condition'' = Inr cond" "list_all (\<lambda>g. g \<in> Str ` set vs) cond"
    by blast
  with vs(2) show "\<exists>cond. df_getitem df ''Condition'' = Inr cond \<and> labels_are_keys cond cc"
    by (auto simp: labels_are_keys_def)
next
  fix es X y ev cc sids
  assume "plot_inputs env a = (es, Inr (X, y, ev, cc, sids))"
  from plot_inputs_Inr [OF this] obtain header' imap' idx' m es' df where
    p: "obtain_group_colors env a header' imap' idx' = Inr cc" "input_matrix env a = Inr m"
       "lda_input env a imap' idx' = (es', Inr (df, sids))" "df_getitem df ''Condition'' = Inr y"
    by blast
  from auto_colors_keys [OF assms p(1)] obtain vs where
    vs: "group_values imap' idx' = Inr vs" "set (map fst cc) = set vs"
    by blast
  from condition_in_group_values [OF p(2,3) vs(1)] p(4)
  have "list_all (\<lambda>g. g \<in> Str ` set vs) y"
    by simp
  with vs(2) show "labels_are_keys y cc"
    by (auto simp: labels_are_keys_def)
qed

theorem auto_colors_cover_labels_witness:
  "colors ex_args = None \<and> iteration_orders ex_env
   \<and> group_values ex_imap 1 = Inr [''A'', ''B'', ''C'', ''A''] \<and> length (hex_colors ex_env) = 12
   \<and> obtain_group_colors ex_env ex_args ex_header ex_imap 1 = Inr ex_auto_colors
   \<and> set (map fst ex_auto_colors) = set [''A'', ''B'', ''C'', ''A'']
   \<and> distinct (map fst ex_auto_colors)
   \<and> plot_inputs ex_env ex_args
       = ([], Inr (ex_X2, ex_labels, EVArr [0.75, 0.25], ex_auto_colors, None))
   \<and> labels_are_keys ex_labels ex_auto_colors"
proof -
  have h: "colors ex_args = None" "iteration_orders ex_env"
    by (simp_all add: ex_args_def iteration_orders_def ex_env_def)
  have g: "group_values ex_imap 1 = Inr [''A'', ''B'', ''C'', ''A'']"
    "length (hex_colors ex_env) = 12"
    by (simp_all add: group_values_def ex_imap_def getitem_def ex_env_def Set3_12_def)
  have o: "obtain_group_colors ex_env ex_args ex_header ex_imap 1 = Inr ex_auto_colors"
    using h(1) by (rule ex_group_colors)
  note t = auto_colors_cover_labels [OF h, of ex_imap 1 ex_header]
  from t g o have k: "set (map fst ex_auto_colors) = set [''A'', ''B'', ''C'', ''A'']"
    "distinct (map fst ex_auto_colors)"
    by auto
  from t ex_plot_inputs have l: "labels_are_keys ex_labels ex_auto_colors"
    by blast
  from h g o k ex_plot_inputs l show ?thesis by blast
qed

end
